theory Spec2Isabelle
  imports Main
begin

section \<open>Strings and JavaScript values\<close>

text \<open>
  JavaScript strings are modelled as \<open>string\<close>: every character is one code unit in the
  range 0..255. HTTP header values reach Node in exactly this range (latin1); for the other
  strings (mail headers, message text) the model covers the inputs whose code units stay
  below 256. A value that may be \<open>undefined\<close> is a \<open>string option\<close>.
\<close>

definition DQUOTE :: char where
  "DQUOTE = CHR 0x22"

definition is_space :: "char \<Rightarrow> bool" where
  \<comment> \<open>the class \<open>\s\<close> of a regular expression and the characters \<open>trim()\<close> removes:
      TAB, LF, VT, FF, CR, SPACE and NBSP are its members below 256\<close>
  "is_space c = (c \<in> set [CHR 0x09, CHR 0x0A, CHR 0x0B, CHR 0x0C, CHR 0x0D, CHR 0x20, CHR 0xA0])"

definition is_line_terminator :: "char \<Rightarrow> bool" where
  \<comment> \<open>the characters \<open>.\<close> does not match (no \<open>s\<close> flag): LF and CR below 256\<close>
  "is_line_terminator c = (c = CHR 0x0A \<or> c = CHR 0x0D)"

definition trim :: "string \<Rightarrow> string" where
  "trim s = rev (dropWhile is_space (rev (dropWhile is_space s)))"

definition js_str :: "string option \<Rightarrow> string" where
  \<comment> \<open>string conversion in a concatenation or a template literal\<close>
  "js_str v = (case v of None \<Rightarrow> ''undefined'' | Some s \<Rightarrow> s)"

definition truthy :: "string option \<Rightarrow> bool" where
  \<comment> \<open>\<open>undefined\<close> and the empty string are falsy\<close>
  "truthy v = (case v of None \<Rightarrow> False | Some s \<Rightarrow> s \<noteq> [])"

section \<open>Email filter (multi-user server)\<close>

definition EXCLUDED_LABELS :: "string list" where
  "EXCLUDED_LABELS =
     [''CATEGORY_PROMOTIONS'', ''CATEGORY_SOCIAL'', ''CATEGORY_UPDATES'',
      ''CATEGORY_FORUMS'', ''SPAM'', ''TRASH'']"

fun first_excluded :: "string list \<Rightarrow> string list \<Rightarrow> string option" where
  \<comment> \<open>the \<open>for ... of EXCLUDED_LABELS\<close> loop: the first excluded label the message carries\<close>
  "first_excluded [] labelIds = None"
| "first_excluded (excludedLabel # rest) labelIds =
     (if excludedLabel \<in> set labelIds then Some excludedLabel
      else first_excluded rest labelIds)"

definition shouldIncludeEmail :: "string \<Rightarrow> string list \<Rightarrow> bool" where
  "shouldIncludeEmail senderEmail labelIds =
     (case first_excluded EXCLUDED_LABELS labelIds of
        Some excludedLabel \<Rightarrow> False
      | None \<Rightarrow> ''INBOX'' \<in> set labelIds)"

section \<open>Sender name\<close>

definition tail_match :: "string \<Rightarrow> bool" where
  \<comment> \<open>whether the whole of \<open>r\<close> matches \<open>\s*<.+>$\<close>\<close>
  "tail_match r =
     (case dropWhile is_space r of
        [] \<Rightarrow> False
      | c # m \<Rightarrow> c = CHR ''<'' \<and> m \<noteq> [] \<and> last m = CHR ''>'' \<and> butlast m \<noteq> [] \<and>
                 list_all (\<lambda>x. \<not> is_line_terminator x) (butlast m))"

fun lazy_group :: "string \<Rightarrow> string \<Rightarrow> string option" where
  \<comment> \<open>group 1 of \<open>/^(.+?)\s*<.+>$/\<close>: the lazy \<open>.+?\<close> has consumed \<open>acc\<close> and takes one
      more character at a time until the rest of the pattern matches\<close>
  "lazy_group acc [] = None"
| "lazy_group acc (c # cs) =
     (if is_line_terminator c then None
      else if tail_match cs then Some (acc @ [c])
      else lazy_group (acc @ [c]) cs)"

definition angle_capture :: "string \<Rightarrow> string option" where
  \<comment> \<open>\<open>(.+)>\<close> on the text after a \<open><\<close>: the greedy \<open>.+\<close> runs to the next line
      terminator and backs off to the last \<open>>\<close> that leaves it non-empty\<close>
  "angle_capture r =
     (let run = takeWhile (\<lambda>c. \<not> is_line_terminator c) r;
          ks = filter (\<lambda>k. run ! k = CHR ''>'') [1..<length run]
      in if ks = [] then None else Some (take (last ks) run))"

fun emailMatch :: "string \<Rightarrow> string option" where
  \<comment> \<open>group 1 of the unanchored \<open>/<(.+)>/\<close>: the leftmost \<open><\<close> from which it matches\<close>
  "emailMatch [] = None"
| "emailMatch (c # cs) =
     (if c = CHR ''<''
      then (case angle_capture cs of Some e \<Rightarrow> Some e | None \<Rightarrow> emailMatch cs)
      else emailMatch cs)"

definition parseSenderName :: "string \<Rightarrow> string" where
  "parseSenderName fromHeader =
     (if fromHeader = [] then ''Unknown Sender''
      else case lazy_group [] fromHeader of
             Some g \<Rightarrow> trim (filter (\<lambda>c. c \<noteq> DQUOTE) g)
           | None \<Rightarrow> (case emailMatch fromHeader of
                        Some e \<Rightarrow> e
                      | None \<Rightarrow> fromHeader))"

section \<open>The \<open>pending_actions\<close> table\<close>

text \<open>
  The handlers reach the table through the Supabase client only. A row is the object the
  code inserts: column names with their values, a column the object lacks being NULL. The
  state of the store is its rows, the calls made so far, and the outcome of the calls to
  come: the next call returns an \<open>error\<close> when the head of \<open>faults\<close> is \<open>True\<close>. The migration
  file creates the unique index \<open>idx_pending_actions_message_unique\<close> on
  \<open>(message_id, platform) WHERE message_id IS NOT NULL\<close>; an insert that breaks it returns
  an error as well.
\<close>

type_synonym row = "(string \<times> string) list"

datatype db_call = Select "(string \<times> string) list" | Insert row

datatype db_error = Unavailable | UniqueViolation

record db =
  rows :: "row list"
  calls :: "db_call list"
  faults :: "bool list"

definition next_fault :: "db \<Rightarrow> bool" where
  "next_fault d = (case faults d of [] \<Rightarrow> False | f # fs \<Rightarrow> f)"

definition col :: "row \<Rightarrow> string \<Rightarrow> string option" where
  "col r c = map_of r c"

definition matches :: "(string \<times> string) list \<Rightarrow> row \<Rightarrow> bool" where
  \<comment> \<open>the conjunction of the \<open>.eq(column, value)\<close> filters of a query\<close>
  "matches filters r = list_all (\<lambda>(c, v). col r c = Some v) filters"

definition violates_unique :: "row list \<Rightarrow> row \<Rightarrow> bool" where
  "violates_unique rs r =
     (case col r ''message_id'' of
        None \<Rightarrow> False
      | Some k \<Rightarrow> (case col r ''platform'' of
                    None \<Rightarrow> False
                  | Some p \<Rightarrow> list_ex (matches [(''message_id'', k), (''platform'', p)]) rs))"

definition db_select :: "(string \<times> string) list \<Rightarrow> nat \<Rightarrow> db \<Rightarrow> (db_error + row list) \<times> db" where
  \<comment> \<open>\<open>.select(...).eq(...).eq(...).limit(lim)\<close>\<close>
  "db_select filters lim d =
     (let d' = d\<lparr>calls := calls d @ [Select filters], faults := tl (faults d)\<rparr>
      in if next_fault d then (Inl Unavailable, d')
         else (Inr (take lim (filter (matches filters) (rows d))), d'))"

definition db_insert :: "row \<Rightarrow> db \<Rightarrow> (db_error + row list) \<times> db" where
  \<comment> \<open>\<open>.insert([r]).select()\<close>: the inserted rows come back\<close>
  "db_insert r d =
     (let d' = d\<lparr>calls := calls d @ [Insert r], faults := tl (faults d)\<rparr>
      in if next_fault d then (Inl Unavailable, d')
         else if violates_unique (rows d) r then (Inl UniqueViolation, d')
         else (Inr [r], d'\<lparr>rows := rows d @ [r]\<rparr>))"

definition opt_col :: "string \<Rightarrow> string option \<Rightarrow> row" where
  \<comment> \<open>a property whose value is \<open>undefined\<close> is left out of the inserted object\<close>
  "opt_col c v = (case v of None \<Rightarrow> [] | Some s \<Rightarrow> [(c, s)])"

section \<open>Duplicate protection and persistence\<close>

text \<open>The argument of \<open>saveToSupabase\<close>; \<open>m_messageId\<close> is the dedup key of the message.\<close>

record message =
  m_sender :: "string option"
  m_summary :: string
  m_url :: string
  m_platform :: string
  m_messageId :: string
  m_user_id :: string

datatype save_result = Skipped string | Saved "row list"

subsection \<open>Multi-user server\<close>

definition isDuplicate :: "string \<Rightarrow> string \<Rightarrow> db \<Rightarrow> bool \<times> db" where
  "isDuplicate messageLink platform d =
     (if messageLink = [] then (False, d)
      else case db_select [(''message_link'', messageLink), (''platform_tag'', platform)] 1 d of
             (Inl error, d') \<Rightarrow> (False, d')
           | (Inr data, d') \<Rightarrow> (0 < length data, d'))"

definition pending_action :: "message \<Rightarrow> row" where
  \<comment> \<open>the object \<open>saveToSupabase\<close> inserts\<close>
  "pending_action m =
     [(''task_text'', js_str (m_sender m) @ '': '' @ m_summary m),
      (''platform_tag'', m_platform m)]
     @ opt_col ''sender_name'' (m_sender m)
     @ [(''message_link'', m_url m),
        (''user_id'', m_user_id m)]"

definition saveToSupabase :: "message \<Rightarrow> db \<Rightarrow> (db_error + save_result) \<times> db" where
  "saveToSupabase m d =
     (case isDuplicate (m_url m) (m_platform m) d of
        (dup, d1) \<Rightarrow>
          if dup then (Inr (Skipped ''duplicate''), d1)
          else (case db_insert (pending_action m) d1 of
                  (Inl error, d2) \<Rightarrow> (Inl error, d2)
                | (Inr data, d2) \<Rightarrow> (Inr (Saved data), d2)))"

subsection \<open>Single-user server (\<open>server.js\<close>)\<close>

definition isDuplicate_server_js :: "string \<Rightarrow> string \<Rightarrow> db \<Rightarrow> bool \<times> db" where
  "isDuplicate_server_js messageId platform d =
     (case db_select [(''message_id'', messageId), (''platform'', platform)] 1 d of
        (Inl error, d') \<Rightarrow> (False, d')
      | (Inr data, d') \<Rightarrow> (0 < length data, d'))"

definition pending_action_server_js :: "string \<Rightarrow> message \<Rightarrow> row" where
  \<comment> \<open>the object inserted; \<open>created_at\<close> is \<open>new Date().toISOString()\<close>\<close>
  "pending_action_server_js created_at m =
     opt_col ''sender'' (m_sender m)
     @ [(''summary'', m_summary m),
        (''url'', m_url m),
        (''platform'', m_platform m),
        (''message_id'', m_messageId m),
        (''created_at'', created_at)]"

definition saveToSupabase_server_js :: "string \<Rightarrow> message \<Rightarrow> db \<Rightarrow> (db_error + save_result) \<times> db" where
  "saveToSupabase_server_js created_at m d =
     (case isDuplicate_server_js (m_messageId m) (m_platform m) d of
        (dup, d1) \<Rightarrow>
          if dup then (Inr (Skipped ''duplicate''), d1)
          else (case db_insert (pending_action_server_js created_at m) d1 of
                  (Inl error, d2) \<Rightarrow> (Inl error, d2)
                | (Inr data, d2) \<Rightarrow> (Inr (Saved data), d2)))"

section \<open>Gmail ingestion (multi-user server)\<close>

datatype exn = TypeError | RangeError | ApiError | DbFailure db_error

datatype payload = Text string | Challenge "string option" | ErrorPage

datatype response = Response (status: nat) (sent: payload)

definition createGmailLink :: "string \<Rightarrow> string" where
  "createGmailLink messageId = ''https://mail.google.com/mail/u/0/#inbox/'' @ messageId"

text \<open>
  A message as \<open>users.messages.get\<close> returns it: \<open>gm_headers\<close> is
  \<open>message.payload?.headers || []\<close> as name and value pairs, \<open>gm_labelIds\<close> is
  \<open>message.data.labelIds || []\<close>.
\<close>

record gmail_message =
  gm_headers :: "(string \<times> string) list"
  gm_labelIds :: "string list"

record email_headers =
  h_from :: string
  h_subject :: string
  h_date :: string
  h_messageId :: string

definition lower_char :: "char \<Rightarrow> char" where
  \<comment> \<open>\<open>toLowerCase\<close> on a code unit below 256: A..Z and the Latin-1 capitals\<close>
  "lower_char c =
     (let n = (of_char c :: nat)
      in if (65 \<le> n \<and> n \<le> 90) \<or> (192 \<le> n \<and> n \<le> 222 \<and> n \<noteq> 215) then char_of (n + 32) else c)"

definition getHeader :: "(string \<times> string) list \<Rightarrow> string \<Rightarrow> string" where
  "getHeader headers name =
     (case find (\<lambda>h. map lower_char (fst h) = map lower_char name) headers of
        None \<Rightarrow> []
      | Some h \<Rightarrow> snd h)"

definition extractEmailHeaders :: "gmail_message \<Rightarrow> email_headers" where
  "extractEmailHeaders message =
     \<lparr>h_from = getHeader (gm_headers message) ''From'',
      h_subject = getHeader (gm_headers message) ''Subject'',
      h_date = getHeader (gm_headers message) ''Date'',
      h_messageId = getHeader (gm_headers message) ''Message-ID''\<rparr>"

text \<open>
  What the provider and the credential table answer during one webhook call:
  \<open>gi_decode\<close> is \<open>JSON.parse(Buffer.from(data, 'base64').toString())\<close> followed by the
  read of \<open>emailAddress\<close>, \<open>gi_token_record\<close> the \<open>(user_id, refresh_token)\<close> found for that
  address, \<open>gi_list\<close> the ids \<open>users.messages.list\<close> returns and \<open>gi_get\<close> the answer of
  \<open>users.messages.get\<close>. \<open>Inl\<close> is a thrown exception.
\<close>

record gmail_io =
  gi_decode :: "string \<Rightarrow> exn + string option"
  gi_token_record :: "(string \<times> string) option"
  gi_list :: "exn + string list"
  gi_get :: "string \<Rightarrow> exn + gmail_message"

datatype ingest_outcome = Filtered | Handled save_result

definition ingest_email :: "gmail_io \<Rightarrow> string \<Rightarrow> string \<Rightarrow> db \<Rightarrow> (exn + ingest_outcome) \<times> db" where
  \<comment> \<open>the body of the \<open>for (const msg of messages)\<close> loop\<close>
  "ingest_email io user_id msg_id d =
     (case gi_get io msg_id of
        Inl e \<Rightarrow> (Inl e, d)
      | Inr message \<Rightarrow>
          (let headers = extractEmailHeaders message;
               senderName = parseSenderName (h_from headers);
               labelIds = gm_labelIds message
           in if \<not> shouldIncludeEmail (h_from headers) labelIds then (Inr Filtered, d)
              else (case saveToSupabase
                           \<lparr>m_sender = Some senderName,
                            m_summary = (if h_subject headers = [] then ''(No Subject)'' else h_subject headers),
                            m_url = createGmailLink msg_id,
                            m_platform = ''gmail'',
                            m_messageId = (if h_messageId headers = [] then msg_id else h_messageId headers),
                            m_user_id = user_id\<rparr> d of
                      (Inl error, d') \<Rightarrow> (Inl (DbFailure error), d')
                    | (Inr result, d') \<Rightarrow> (Inr (Handled result), d'))))"

fun ingest_all :: "gmail_io \<Rightarrow> string \<Rightarrow> string list \<Rightarrow> nat \<Rightarrow> db \<Rightarrow> (exn + nat) \<times> db" where
  "ingest_all io user_id [] processed d = (Inr processed, d)"
| "ingest_all io user_id (msg_id # rest) processed d =
     (case ingest_email io user_id msg_id d of
        (Inl e, d') \<Rightarrow> (Inl e, d')
      | (Inr Filtered, d') \<Rightarrow> ingest_all io user_id rest processed d'
      | (Inr (Handled (Skipped reason)), d') \<Rightarrow> ingest_all io user_id rest processed d'
      | (Inr (Handled (Saved data)), d') \<Rightarrow> ingest_all io user_id rest (processed + 1) d')"

definition gmail_webhook_try :: "gmail_io \<Rightarrow> string option \<Rightarrow> db \<Rightarrow> (exn + response) \<times> db" where
  \<comment> \<open>the \<open>try\<close> block of \<open>POST /gmail/webhook\<close>; \<open>data\<close> is \<open>req.body.message?.data\<close>\<close>
  "gmail_webhook_try io data d =
     (if \<not> truthy data then (Inr (Response 200 (Text ''No data'')), d)
      else (case gi_decode io (js_str data) of
              Inl e \<Rightarrow> (Inl e, d)
            | Inr emailAddress \<Rightarrow>
                (case gi_token_record io of
                   None \<Rightarrow> (Inr (Response 200 (Text ''OK'')), d)
                 | Some (user_id, refresh_token) \<Rightarrow>
                     (case gi_list io of
                        Inl e \<Rightarrow> (Inl e, d)
                      | Inr messages \<Rightarrow>
                          (case ingest_all io user_id messages 0 d of
                             (Inl e, d') \<Rightarrow> (Inl e, d')
                           | (Inr processed, d') \<Rightarrow> (Inr (Response 200 (Text ''OK'')), d'))))))"

definition gmail_webhook :: "gmail_io \<Rightarrow> string option \<Rightarrow> db \<Rightarrow> (exn + response) \<times> db" where
  \<comment> \<open>\<open>Inl\<close> would be an exception leaving the handler\<close>
  "gmail_webhook io data d =
     (case gmail_webhook_try io data d of
        (Inl error, d') \<Rightarrow> (Inr (Response 200 (Text ''Error logged'')), d')
      | (Inr res, d') \<Rightarrow> (Inr res, d'))"

section \<open>Slack webhook\<close>

subsection \<open>Signature verification (the same text in both servers)\<close>

record slack_event =
  ev_type :: "string option"
  ev_channel_type :: "string option"
  ev_bot_id :: "string option"
  ev_subtype :: "string option"
  ev_channel :: "string option"
  ev_ts :: "string option"
  ev_user :: "string option"
  ev_text :: "string option"

record slack_body =
  b_type :: "string option"
  b_challenge :: "string option"
  b_team_id :: "string option"
  b_event :: "slack_event option"

text \<open>
  The parsed request: the two headers the verifier reads, \<open>undefined\<close> when absent, and
  the body \<open>express.json()\<close> has parsed, as the properties the handler reads.
\<close>

record slack_request =
  x_slack_request_timestamp :: "string option"
  x_slack_signature :: "string option"
  body :: slack_body

text \<open>
  The library functions the verifier calls are parameters: \<open>hmac_sha256_hex key msg\<close> is
  \<open>crypto.createHmac('sha256', key).update(msg).digest('hex')\<close> and \<open>JSON_stringify\<close> is
  \<open>JSON.stringify\<close> on the parsed body. \<open>SLACK_SIGNING_SECRET\<close> is the environment
  variable and \<open>now_ms\<close> is \<open>Date.now()\<close>.
\<close>

record lib =
  hmac_sha256_hex :: "string \<Rightarrow> string \<Rightarrow> string"
  JSON_stringify :: "slack_body \<Rightarrow> string"

record env =
  SLACK_SIGNING_SECRET :: "string option"
  now_ms :: int

definition digit_value :: "char \<Rightarrow> nat option" where
  "digit_value c =
     (let n = (of_char c :: nat)
      in if 48 \<le> n \<and> n \<le> 57 then Some (n - 48)
         else if 97 \<le> n \<and> n \<le> 122 then Some (n - 87)
         else if 65 \<le> n \<and> n \<le> 90 then Some (n - 55)
         else None)"

definition radix_digit :: "nat \<Rightarrow> char \<Rightarrow> nat option" where
  "radix_digit R c = (case digit_value c of None \<Rightarrow> None | Some k \<Rightarrow> if k < R then Some k else None)"

fun parse_digits :: "nat \<Rightarrow> int \<Rightarrow> string \<Rightarrow> int" where
  \<comment> \<open>the value of the longest prefix of radix-\<open>R\<close> digits\<close>
  "parse_digits R acc [] = acc"
| "parse_digits R acc (c # cs) =
     (case radix_digit R c of
        None \<Rightarrow> acc
      | Some k \<Rightarrow> parse_digits R (acc * int R + int k) cs)"

definition parseInt :: "string option \<Rightarrow> int option" where
  \<comment> \<open>\<open>parseInt(v)\<close> with no radix; \<open>None\<close> is \<open>NaN\<close>. The result is the exact integer: the
      double \<open>parseInt\<close> returns compares with an integer below \<open>2^53\<close> as the exact value does\<close>
  "parseInt v =
     (let S = dropWhile is_space (js_str v);
          sign = (if take 1 S = ''-'' then - 1 else 1);
          S1 = (if take 1 S = ''-'' \<or> take 1 S = ''+'' then drop 1 S else S);
          R = (if take 2 S1 = ''0x'' \<or> take 2 S1 = ''0X'' then 16 else 10);
          S2 = (if R = 16 then drop 2 S1 else S1)
      in case S2 of
           [] \<Rightarrow> None
         | c # cs \<Rightarrow> if radix_digit R c = None then None else Some (sign * parse_digits R 0 S2))"

definition utf8 :: "char \<Rightarrow> nat list" where
  "utf8 c =
     (let n = (of_char c :: nat)
      in if n < 128 then [n] else [192 + n div 64, 128 + n mod 64])"

definition Buffer_from :: "string \<Rightarrow> nat list" where
  \<comment> \<open>\<open>Buffer.from(s)\<close>: the UTF-8 bytes of the string\<close>
  "Buffer_from s = concat (map utf8 s)"

definition timingSafeEqual :: "nat list \<Rightarrow> nat list \<Rightarrow> exn + bool" where
  \<comment> \<open>throws when the buffers differ in byte length\<close>
  "timingSafeEqual a b = (if length a \<noteq> length b then Inl RangeError else Inr (a = b))"

definition sigBasestring :: "lib \<Rightarrow> slack_request \<Rightarrow> string" where
  "sigBasestring lb req =
     ''v0:'' @ js_str (x_slack_request_timestamp req) @ '':'' @ JSON_stringify lb (body req)"

definition mySignature :: "lib \<Rightarrow> string \<Rightarrow> slack_request \<Rightarrow> string" where
  "mySignature lb slackSigningSecret req =
     ''v0='' @ hmac_sha256_hex lb slackSigningSecret (sigBasestring lb req)"

definition fiveMinutesAgo :: "env \<Rightarrow> int" where
  "fiveMinutesAgo e = now_ms e div 1000 - 60 * 5"

definition stale :: "env \<Rightarrow> slack_request \<Rightarrow> bool" where
  \<comment> \<open>\<open>parseInt(timestamp) < fiveMinutesAgo\<close>; a comparison with \<open>NaN\<close> is false\<close>
  "stale e req =
     (case parseInt (x_slack_request_timestamp req) of
        None \<Rightarrow> False
      | Some t \<Rightarrow> t < fiveMinutesAgo e)"

definition verifySlackSignature :: "lib \<Rightarrow> env \<Rightarrow> slack_request \<Rightarrow> exn + bool" where
  "verifySlackSignature lb e req =
     (if \<not> truthy (SLACK_SIGNING_SECRET e) then Inr True
      else if stale e req then Inr False
      else (case x_slack_signature req of
              None \<Rightarrow> Inl TypeError
            | Some signature \<Rightarrow>
                timingSafeEqual
                  (Buffer_from (mySignature lb (js_str (SLACK_SIGNING_SECRET e)) req))
                  (Buffer_from signature)))"

definition is_hex_digest :: "string \<Rightarrow> bool" where
  \<comment> \<open>the shape of an HMAC-SHA256 digest in hex: 64 lower-case hexadecimal digits\<close>
  "is_hex_digest s = (length s = 64 \<and> list_all (\<lambda>c. c \<in> set ''0123456789abcdef'') s)"

subsection \<open>The handler (multi-user server)\<close>

definition createSlackLink :: "string option \<Rightarrow> string option \<Rightarrow> string option \<Rightarrow> string" where
  "createSlackLink teamId channelId messageTs =
     ''https://slack.com/app_redirect?team='' @ js_str teamId @ ''&channel='' @ js_str channelId
       @ ''&message_ts='' @ js_str messageTs"

text \<open>
  What the credential table and \<open>users.info\<close> answer during one call: \<open>si_token_record\<close>
  is the \<open>(user_id, bot_token)\<close> stored for the team, \<open>si_users_info\<close> the decoded answer
  (\<open>None\<close> when the fetch or its decoding throws).
\<close>

record user_data =
  ud_ok :: bool
  ud_real_name :: "string option"
  ud_name :: "string option"

record slack_io =
  si_token_record :: "(string \<times> string) option"
  si_users_info :: "user_data option"

definition slack_dm :: "slack_io \<Rightarrow> slack_body \<Rightarrow> slack_event \<Rightarrow> db \<Rightarrow> (exn + unit) \<times> db" where
  \<comment> \<open>the \<open>try\<close> block that handles a direct message\<close>
  "slack_dm io b event d =
     (let teamId = b_team_id b;
          channelId = ev_channel event;
          messageTs = ev_ts event;
          slackUserId = ev_user event;
          text = (if truthy (ev_text event) then js_str (ev_text event) else ''(No message text)'')
      in case si_token_record io of
           None \<Rightarrow> (Inr (), d)
         | Some (user_id, bot_token) \<Rightarrow>
             (let senderName =
                    (case si_users_info io of
                       None \<Rightarrow> slackUserId
                     | Some userData \<Rightarrow>
                         if ud_ok userData
                         then (if truthy (ud_real_name userData) then ud_real_name userData
                               else if truthy (ud_name userData) then ud_name userData
                               else slackUserId)
                         else slackUserId);
                  summary = (if 100 < length text then take 100 text @ ''...'' else text)
              in case saveToSupabase
                        \<lparr>m_sender = senderName,
                         m_summary = summary,
                         m_url = createSlackLink teamId channelId messageTs,
                         m_platform = ''slack'',
                         m_messageId = js_str teamId @ ''-'' @ js_str channelId @ ''-'' @ js_str messageTs,
                         m_user_id = user_id\<rparr> d of
                   (Inl error, d') \<Rightarrow> (Inl (DbFailure error), d')
                 | (Inr result, d') \<Rightarrow> (Inr (), d')))"

definition slack_webhook :: "lib \<Rightarrow> env \<Rightarrow> slack_io \<Rightarrow> slack_request \<Rightarrow> db \<Rightarrow> (exn + response) \<times> db" where
  \<comment> \<open>\<open>POST /slack/webhook\<close>; \<open>Inl\<close> is an exception that leaves the handler with no
      response sent\<close>
  "slack_webhook lb e io req d =
     (if b_type (body req) = Some ''url_verification''
      then (Inr (Response 200 (Challenge (b_challenge (body req)))), d)
      else (case verifySlackSignature lb e req of
              Inl error \<Rightarrow> (Inl error, d)
            | Inr valid \<Rightarrow>
                if \<not> valid then (Inr (Response 401 (Text ''Invalid signature'')), d)
                else (case b_event (body req) of
                        None \<Rightarrow> (Inr (Response 200 (Text ''OK'')), d)
                      | Some event \<Rightarrow>
                          if ev_type event = Some ''message'' \<and> ev_channel_type event = Some ''im''
                          then (if truthy (ev_bot_id event) \<or> truthy (ev_subtype event)
                                then (Inr (Response 200 (Text ''OK'')), d)
                                else (Inr (Response 200 (Text ''OK'')), snd (slack_dm io (body req) event d)))
                          else (Inr (Response 200 (Text ''OK'')), d))))"

section \<open>The body parser\<close>

text \<open>
  \<open>app.use(express.json())\<close> stands before both webhook routes: a route's handler runs on
  the body the parser has made of the raw body, and a raw body the parser cannot parse is
  answered by Express with status 400 and its error page, the handler not being called.
  The parser is a library function and a parameter here, \<open>None\<close> being its failure. For
  the Gmail route it gives \<open>req.body.message?.data\<close>, for the Slack route the parsed body.
\<close>

record slack_delivery =
  dl_timestamp :: "string option"
  dl_signature :: "string option"
  dl_raw_body :: string

definition post_gmail_webhook ::
  "(string \<Rightarrow> string option option) \<Rightarrow> gmail_io \<Rightarrow> string \<Rightarrow> db \<Rightarrow> (exn + response) \<times> db" where
  "post_gmail_webhook JSON_parse io raw_body d =
     (case JSON_parse raw_body of
        None \<Rightarrow> (Inr (Response 400 ErrorPage), d)
      | Some data \<Rightarrow> gmail_webhook io data d)"

definition parsed_request :: "slack_delivery \<Rightarrow> slack_body \<Rightarrow> slack_request" where
  \<comment> \<open>the request the handler sees: the headers of the delivery and the parsed body\<close>
  "parsed_request dl b =
     \<lparr>x_slack_request_timestamp = dl_timestamp dl, x_slack_signature = dl_signature dl, body = b\<rparr>"

definition post_slack_webhook ::
  "(string \<Rightarrow> slack_body option) \<Rightarrow> lib \<Rightarrow> env \<Rightarrow> slack_io \<Rightarrow> slack_delivery \<Rightarrow> db
     \<Rightarrow> (exn + response) \<times> db" where
  "post_slack_webhook JSON_parse lb e io dl d =
     (case JSON_parse (dl_raw_body dl) of
        None \<Rightarrow> (Inr (Response 400 ErrorPage), d)
      | Some b \<Rightarrow> slack_webhook lb e io (parsed_request dl b) d)"

section \<open>Counting recorded messages\<close>

definition copies :: "(string \<times> string) list \<Rightarrow> row list \<Rightarrow> nat" where
  \<comment> \<open>the number of rows a query with these filters finds\<close>
  "copies filters rs = length (filter (matches filters) rs)"

section \<open>Properties of the email filter\<close>

lemma first_excluded_None:
  "first_excluded xs labelIds = None \<longleftrightarrow> (\<forall>x \<in> set xs. x \<notin> set labelIds)"
  by (induction xs) auto

lemma excluded_dropped:
  "x \<in> set EXCLUDED_LABELS \<Longrightarrow> x \<in> set labelIds \<Longrightarrow> \<not> shouldIncludeEmail senderEmail labelIds"
proof -
  assume a: "x \<in> set EXCLUDED_LABELS" "x \<in> set labelIds"
  then have "first_excluded EXCLUDED_LABELS labelIds \<noteq> None"
    unfolding first_excluded_None by blast
  then show ?thesis by (auto simp: shouldIncludeEmail_def)
qed

lemma included_inbox: "shouldIncludeEmail senderEmail labelIds \<Longrightarrow> ''INBOX'' \<in> set labelIds"
  by (simp add: shouldIncludeEmail_def split: option.splits)

lemma ingest_email_filtered:
  "gi_get io msg_id = Inr message \<Longrightarrow> x \<in> set EXCLUDED_LABELS \<Longrightarrow> x \<in> set (gm_labelIds message) \<Longrightarrow>
   ingest_email io user_id msg_id d = (Inr Filtered, d)"
  by (simp add: ingest_email_def Let_def excluded_dropped)

text \<open>
  Claim C5. The label filter drops a message that carries the promotions, social, forums,
  spam or trash label, and a message it keeps is in the inbox. A fetched message labelled
  \<open>CATEGORY_PROMOTIONS\<close> leaves the loop body with no call to the store: no record is
  written for it.
\<close>

theorem shouldIncludeEmail_policy:
  "(x \<in> set [''CATEGORY_PROMOTIONS'', ''CATEGORY_SOCIAL'', ''CATEGORY_FORUMS'', ''SPAM'', ''TRASH'']
      \<and> x \<in> set labelIds \<longrightarrow> \<not> shouldIncludeEmail senderEmail labelIds)
   \<and> (shouldIncludeEmail senderEmail labelIds \<longrightarrow> ''INBOX'' \<in> set labelIds)
   \<and> (gi_get io msg_id = Inr message \<and> ''CATEGORY_PROMOTIONS'' \<in> set (gm_labelIds message)
        \<longrightarrow> ingest_email io user_id msg_id d = (Inr Filtered, d))"
proof (intro conjI impI)
  assume "x \<in> set [''CATEGORY_PROMOTIONS'', ''CATEGORY_SOCIAL'', ''CATEGORY_FORUMS'', ''SPAM'', ''TRASH'']
      \<and> x \<in> set labelIds"
  then have "x \<in> set EXCLUDED_LABELS" and "x \<in> set labelIds"
    by (auto simp: EXCLUDED_LABELS_def)
  then show "\<not> shouldIncludeEmail senderEmail labelIds" by (rule excluded_dropped)
next
  assume "shouldIncludeEmail senderEmail labelIds"
  then show "''INBOX'' \<in> set labelIds" by (rule included_inbox)
next
  assume a: "gi_get io msg_id = Inr message \<and> ''CATEGORY_PROMOTIONS'' \<in> set (gm_labelIds message)"
  have "''CATEGORY_PROMOTIONS'' \<in> set EXCLUDED_LABELS" by (simp add: EXCLUDED_LABELS_def)
  with a show "ingest_email io user_id msg_id d = (Inr Filtered, d)"
    by (simp add: ingest_email_filtered)
qed

text \<open>
  Claim C5 at the inbox message of the specification, with and without the promotions
  label.
\<close>

theorem shouldIncludeEmail_policy_witness:
  "\<not> shouldIncludeEmail ''Bob <bob@co.com>'' [''INBOX'', ''CATEGORY_PROMOTIONS'']
   \<and> shouldIncludeEmail ''Bob <bob@co.com>'' [''INBOX'']
   \<and> ingest_email
        \<lparr>gi_decode = (\<lambda>s. Inr (Some ''bob.reader@x.com'')),
         gi_token_record = Some (''u1'', ''refresh''),
         gi_list = Inr [''18c''],
         gi_get = (\<lambda>i. Inr \<lparr>gm_headers = [(''From'', ''Bob <bob@co.com>''), (''Subject'', ''Q3 report''),
                                            (''Message-ID'', ''<abc@mail>'')],
                              gm_labelIds = [''INBOX'', ''CATEGORY_PROMOTIONS'']\<rparr>)\<rparr>
        ''u1'' ''18c'' \<lparr>rows = [], calls = [], faults = []\<rparr>
      = (Inr Filtered, \<lparr>rows = [], calls = [], faults = []\<rparr>)"
proof -
  let ?msg = "\<lparr>gm_headers = [(''From'', ''Bob <bob@co.com>''), (''Subject'', ''Q3 report''),
                                (''Message-ID'', ''<abc@mail>'')],
                gm_labelIds = [''INBOX'', ''CATEGORY_PROMOTIONS'']\<rparr>"
  let ?io = "\<lparr>gi_decode = (\<lambda>s. Inr (Some ''bob.reader@x.com'')),
         gi_token_record = Some (''u1'', ''refresh''),
         gi_list = Inr [''18c''],
         gi_get = (\<lambda>i. Inr ?msg)\<rparr>"
  have yes: "shouldIncludeEmail ''Bob <bob@co.com>'' [''INBOX'']"
    by (simp add: shouldIncludeEmail_def EXCLUDED_LABELS_def)
  from shouldIncludeEmail_policy[of "''CATEGORY_PROMOTIONS''" "[''INBOX'', ''CATEGORY_PROMOTIONS'']"
      "''Bob <bob@co.com>''" ?io "''18c''" ?msg "''u1''" "\<lparr>rows = [], calls = [], faults = []\<rparr>"]
    shouldIncludeEmail_policy[of "''CATEGORY_PROMOTIONS''" "[''INBOX'']"
      "''Bob <bob@co.com>''" ?io "''18c''" ?msg "''u1''" "\<lparr>rows = [], calls = [], faults = []\<rparr>"]
    yes
  show ?thesis by simp
qed

section \<open>Properties of the sender name parser\<close>

lemma DQUOTE_not_space: "\<not> is_space DQUOTE"
  by (simp add: is_space_def DQUOTE_def)

lemma lt_not_space: "\<not> is_space (CHR ''<'')"
  by (simp add: is_space_def)

lemma tail_match_needs_lt: "CHR ''<'' \<notin> set r \<Longrightarrow> \<not> tail_match r"
proof
  assume a: "CHR ''<'' \<notin> set r" and t: "tail_match r"
  from t obtain m where "dropWhile is_space r = CHR ''<'' # m"
    by (auto simp: tail_match_def split: list.splits)
  then have "CHR ''<'' \<in> set (dropWhile is_space r)" by simp
  then have "CHR ''<'' \<in> set r" by (rule set_dropWhileD)
  with a show False by simp
qed

lemma tail_match_quote: "CHR ''<'' \<notin> set u \<Longrightarrow> \<not> tail_match (u @ DQUOTE # v)"
proof (induction u)
  case Nil
  then show ?case by (simp add: tail_match_def DQUOTE_not_space) (simp add: DQUOTE_def)
next
  case (Cons a u)
  then show ?case by (cases "is_space a") (auto simp: tail_match_def)
qed

lemma lazy_group_found:
  "\<lbrakk>xs \<noteq> []; \<forall>c \<in> set xs. \<not> is_line_terminator c; tail_match ys;
    \<forall>k. 0 < k \<and> k < length xs \<longrightarrow> \<not> tail_match (drop k xs @ ys)\<rbrakk>
   \<Longrightarrow> lazy_group acc (xs @ ys) = Some (acc @ xs)"
proof (induction xs arbitrary: acc)
  case Nil
  then show ?case by simp
next
  case (Cons x xs)
  show ?case
  proof (cases "xs = []")
    case True
    with Cons.prems show ?thesis by simp
  next
    case False
    from Cons.prems(4) False have n1: "\<not> tail_match (xs @ ys)"
      by (metis drop0 drop_Suc_Cons length_Cons length_greater_0_conv lessI Suc_less_eq zero_less_Suc One_nat_def)
    have rest: "\<forall>k. 0 < k \<and> k < length xs \<longrightarrow> \<not> tail_match (drop k xs @ ys)"
    proof (intro allI impI)
      fix k assume "0 < k \<and> k < length xs"
      then have "0 < Suc k \<and> Suc k < length (x # xs)" by simp
      with Cons.prems(4) have "\<not> tail_match (drop (Suc k) (x # xs) @ ys)" by blast
      then show "\<not> tail_match (drop k xs @ ys)" by simp
    qed
    from Cons.prems(2) have nl: "\<forall>c \<in> set xs. \<not> is_line_terminator c" and nx: "\<not> is_line_terminator x"
      by simp_all
    from Cons.IH[OF False nl Cons.prems(3) rest, of "acc @ [x]"] n1 nx
    show ?thesis by simp
  qed
qed

lemma lazy_group_none: "CHR ''<'' \<notin> set s \<Longrightarrow> lazy_group acc s = None"
  by (induction s arbitrary: acc) (auto simp: tail_match_needs_lt)

lemma emailMatch_none: "CHR ''<'' \<notin> set s \<Longrightarrow> emailMatch s = None"
  by (induction s) auto

lemma tail_match_addr:
  "addr \<noteq> [] \<Longrightarrow> \<forall>c \<in> set addr. \<not> is_line_terminator c \<Longrightarrow> tail_match ('' <'' @ addr @ ''>'')"
  by (simp add: tail_match_def is_space_def butlast_append list_all_iff)

lemma parseSenderName_display_name:
  assumes "CHR ''<'' \<notin> set name" and "\<forall>c \<in> set name. \<not> is_line_terminator c"
    and "addr \<noteq> []" and "\<forall>c \<in> set addr. \<not> is_line_terminator c"
  shows "parseSenderName (DQUOTE # name @ DQUOTE # '' <'' @ addr @ ''>'') = trim (filter (\<lambda>c. c \<noteq> DQUOTE) name)"
proof -
  let ?xs = "DQUOTE # name @ [DQUOTE]"
  let ?ys = "'' <'' @ addr @ ''>''"
  have nl: "\<forall>c \<in> set ?xs. \<not> is_line_terminator c"
    using assms(2) by (simp add: is_line_terminator_def DQUOTE_def)
  have tm: "tail_match ?ys" using assms(3,4) by (rule tail_match_addr)
  have shorter: "\<forall>k. 0 < k \<and> k < length ?xs \<longrightarrow> \<not> tail_match (drop k ?xs @ ?ys)"
  proof (intro allI impI)
    fix k assume k: "0 < k \<and> k < length ?xs"
    then obtain j where j: "k = Suc j" and jl: "j \<le> length name" by (cases k) auto
    have "drop k ?xs @ ?ys = drop j name @ DQUOTE # ?ys" using j jl by simp
    moreover have "CHR ''<'' \<notin> set (drop j name)" using assms(1) by (meson in_set_dropD)
    ultimately show "\<not> tail_match (drop k ?xs @ ?ys)" by (simp only: tail_match_quote not_False_eq_True)
  qed
  have "lazy_group [] (?xs @ ?ys) = Some ([] @ ?xs)"
    by (rule lazy_group_found[OF _ nl tm shorter]) simp
  then show ?thesis by (simp add: parseSenderName_def)
qed

lemma parseSenderName_bare:
  "s \<noteq> [] \<Longrightarrow> CHR ''<'' \<notin> set s \<Longrightarrow> parseSenderName s = s"
  by (simp add: parseSenderName_def lazy_group_none emailMatch_none)

text \<open>
  Claim C6, as amended. For a header \<open>"name" <addr>\<close> whose display name holds no
  \<open><\<close> and no line terminator and whose address is non-empty with no line terminator,
  the sender is the display name with its quote characters removed and the white space
  around it trimmed. For a non-empty header with no \<open><\<close> the sender is the header itself.
\<close>

theorem parseSenderName_headers:
  "(CHR ''<'' \<notin> set name \<and> (\<forall>c \<in> set name. \<not> is_line_terminator c)
      \<and> addr \<noteq> [] \<and> (\<forall>c \<in> set addr. \<not> is_line_terminator c)
      \<longrightarrow> parseSenderName (DQUOTE # name @ DQUOTE # '' <'' @ addr @ ''>'')
            = trim (filter (\<lambda>c. c \<noteq> DQUOTE) name))
   \<and> (s \<noteq> [] \<and> CHR ''<'' \<notin> set s \<longrightarrow> parseSenderName s = s)"
  using parseSenderName_display_name parseSenderName_bare by blast

text \<open>Claim C6 at the two headers of the specification.\<close>

theorem parseSenderName_headers_witness:
  "parseSenderName (DQUOTE # ''Ada Lovelace'' @ DQUOTE # '' <ada@x.com>'') = ''Ada Lovelace''
   \<and> parseSenderName ''ada@x.com'' = ''ada@x.com''"
  using parseSenderName_headers[of "''Ada Lovelace''" "''ada@x.com''" "''ada@x.com''"]
  by (simp add: trim_def is_space_def is_line_terminator_def DQUOTE_def)

text \<open>
  Claim C6 as stated fails for a quoted display name that contains \<open><\<close>: the lazy group
  stops at the first \<open><\<close> from which the rest of the pattern matches, so the sender of
  \<open>"Smith <Sales>" <smith@co.com>\<close> is \<open>Smith\<close>, not the display name without its quotes.
\<close>

theorem parseSenderName_angle_in_name:
  "parseSenderName (DQUOTE # ''Smith <Sales>'' @ DQUOTE # '' <smith@co.com>'') = ''Smith''
   \<and> filter (\<lambda>c. c \<noteq> DQUOTE) ''Smith <Sales>'' = ''Smith <Sales>''"
  by (simp add: parseSenderName_def tail_match_def trim_def is_space_def is_line_terminator_def DQUOTE_def)

section \<open>Properties of duplicate protection\<close>

lemma col_pending_action:
  "col (pending_action m) ''message_link'' = Some (m_url m)"
  "col (pending_action m) ''platform_tag'' = Some (m_platform m)"
  "col (pending_action m) ''message_id'' = None"
  by (simp_all add: col_def pending_action_def opt_col_def split: option.split)

lemma col_pending_action_server_js:
  "col (pending_action_server_js t m) ''message_id'' = Some (m_messageId m)"
  "col (pending_action_server_js t m) ''platform'' = Some (m_platform m)"
  by (simp_all add: col_def pending_action_server_js_def opt_col_def split: option.split)

lemma matches_pair:
  "matches [(c1, v1), (c2, v2)] r \<longleftrightarrow> col r c1 = Some v1 \<and> col r c2 = Some v2"
  by (simp add: matches_def)

lemma take1_filter_nonempty:
  "filter P xs \<noteq> [] \<longleftrightarrow> list_ex P xs"
  by (induction xs) auto

lemma isDuplicate_eq:
  "messageLink \<noteq> [] \<Longrightarrow>
   isDuplicate messageLink platform d =
     (\<not> next_fault d \<and> list_ex (matches [(''message_link'', messageLink), (''platform_tag'', platform)]) (rows d),
      d\<lparr>calls := calls d @ [Select [(''message_link'', messageLink), (''platform_tag'', platform)]],
        faults := tl (faults d)\<rparr>)"
  by (simp add: isDuplicate_def db_select_def Let_def take1_filter_nonempty)

lemma isDuplicate_server_js_eq:
  "isDuplicate_server_js messageId platform d =
     (\<not> next_fault d \<and> list_ex (matches [(''message_id'', messageId), (''platform'', platform)]) (rows d),
      d\<lparr>calls := calls d @ [Select [(''message_id'', messageId), (''platform'', platform)]],
        faults := tl (faults d)\<rparr>)"
  by (simp add: isDuplicate_server_js_def db_select_def Let_def take1_filter_nonempty)

lemma recorded_matches:
  "pending_action m \<in> set rs \<Longrightarrow>
   list_ex (matches [(''message_link'', m_url m), (''platform_tag'', m_platform m)]) rs"
  unfolding list_ex_iff matches_pair using col_pending_action by blast

lemma recorded_matches_server_js:
  "pending_action_server_js t m \<in> set rs \<Longrightarrow>
   list_ex (matches [(''message_id'', m_messageId m), (''platform'', m_platform m)]) rs"
  unfolding list_ex_iff matches_pair using col_pending_action_server_js by blast

lemma redelivery:
  assumes "pending_action m \<in> set (rows d)" "m_url m \<noteq> []" "\<not> next_fault d"
  shows "fst (saveToSupabase m d) = Inr (Skipped ''duplicate'') \<and> rows (snd (saveToSupabase m d)) = rows d"
  using assms by (simp add: saveToSupabase_def isDuplicate_eq recorded_matches)

lemma redelivery_server_js:
  assumes "pending_action_server_js t m \<in> set (rows d)" "\<not> next_fault d"
  shows "fst (saveToSupabase_server_js t' m d) = Inr (Skipped ''duplicate'') \<and> rows (snd (saveToSupabase_server_js t' m d)) = rows d"
  using assms by (simp add: saveToSupabase_server_js_def isDuplicate_server_js_eq recorded_matches_server_js)

lemma copies_zero: "\<not> list_ex (matches f) rs \<Longrightarrow> copies f rs = 0"
  by (simp add: copies_def list_ex_iff filter_empty_conv)

lemma violates_unique_server_js:
  "violates_unique rs (pending_action_server_js t m) =
     list_ex (matches [(''message_id'', m_messageId m), (''platform'', m_platform m)]) rs"
  by (simp add: violates_unique_def col_pending_action_server_js)

lemma at_most_one_server_js:
  assumes "copies [(''message_id'', k), (''platform'', p)] (rows d) \<le> 1"
  shows "copies [(''message_id'', k), (''platform'', p)] (rows (snd (saveToSupabase_server_js t m d))) \<le> 1"
proof (cases "k = m_messageId m \<and> p = m_platform m")
  case True
  show ?thesis
  proof (cases "list_ex (matches [(''message_id'', m_messageId m), (''platform'', m_platform m)]) (rows d)")
    case ex: True
    then show ?thesis using assms
      by (simp add: saveToSupabase_server_js_def isDuplicate_server_js_eq db_insert_def Let_def
            violates_unique_server_js split: if_splits)
  next
    case nex: False
    with True have "copies [(''message_id'', k), (''platform'', p)] (rows d) = 0"
      by (simp add: copies_zero)
    then show ?thesis using nex
      by (simp add: saveToSupabase_server_js_def isDuplicate_server_js_eq db_insert_def Let_def
            violates_unique_server_js copies_def split: if_splits)
  qed
next
  case False
  then have "\<not> matches [(''message_id'', k), (''platform'', p)] (pending_action_server_js t m)"
    by (auto simp: matches_pair col_pending_action_server_js)
  then show ?thesis using assms
    by (simp add: saveToSupabase_server_js_def isDuplicate_server_js_eq db_insert_def Let_def
          copies_def split: if_splits)
qed

lemma isDuplicate_empty: "isDuplicate [] platform d = (False, d)"
  by (simp add: isDuplicate_def)

lemma saveToSupabase_calls:
  "m_url m \<noteq> [] \<Longrightarrow>
   calls (snd (saveToSupabase m d)) = calls d @ [Select [(''message_link'', m_url m), (''platform_tag'', m_platform m)]]
   \<or> calls (snd (saveToSupabase m d))
        = calls d @ [Select [(''message_link'', m_url m), (''platform_tag'', m_platform m)], Insert (pending_action m)]"
  by (simp add: saveToSupabase_def isDuplicate_eq db_insert_def Let_def)

lemma saveToSupabase_server_js_calls:
  "calls (snd (saveToSupabase_server_js t m d)) = calls d @ [Select [(''message_id'', m_messageId m), (''platform'', m_platform m)]]
   \<or> calls (snd (saveToSupabase_server_js t m d))
        = calls d @ [Select [(''message_id'', m_messageId m), (''platform'', m_platform m)],
                     Insert (pending_action_server_js t m)]"
  by (simp add: saveToSupabase_server_js_def isDuplicate_server_js_eq db_insert_def Let_def)

lemma insert_after_lookup:
  assumes "fst (isDuplicate (m_url m) (m_platform m) d) = False" and "m_url m \<noteq> []" and "\<not> next_fault d"
    and "rows d' = rows d"
    and "copies [(''message_link'', l), (''platform_tag'', p)] (rows d) \<le> 1"
  shows "copies [(''message_link'', l), (''platform_tag'', p)] (rows (snd (db_insert (pending_action m) d'))) \<le> 1"
proof -
  have none: "\<not> list_ex (matches [(''message_link'', m_url m), (''platform_tag'', m_platform m)]) (rows d)"
    using assms(1,2,3) by (simp add: isDuplicate_eq)
  show ?thesis
  proof (cases "l = m_url m \<and> p = m_platform m")
    case True
    with none have "copies [(''message_link'', l), (''platform_tag'', p)] (rows d) = 0"
      by (simp add: copies_zero)
    then show ?thesis using assms(4)
      by (simp add: db_insert_def Let_def copies_def)
  next
    case False
    then have "\<not> matches [(''message_link'', l), (''platform_tag'', p)] (pending_action m)"
      by (auto simp: matches_pair col_pending_action)
    then show ?thesis using assms(4,5)
      by (simp add: db_insert_def Let_def copies_def)
  qed
qed

lemma insert_server_js_at_most_one:
  assumes "copies [(''message_id'', k), (''platform'', p)] (rows d) \<le> 1"
  shows "copies [(''message_id'', k), (''platform'', p)]
           (rows (snd (db_insert (pending_action_server_js t m) d))) \<le> 1"
proof (cases "k = m_messageId m \<and> p = m_platform m")
  case True
  show ?thesis
  proof (cases "list_ex (matches [(''message_id'', m_messageId m), (''platform'', m_platform m)]) (rows d)")
    case ex: True
    then show ?thesis using assms
      by (simp add: db_insert_def Let_def violates_unique_server_js)
  next
    case nex: False
    with True have "copies [(''message_id'', k), (''platform'', p)] (rows d) = 0"
      by (simp add: copies_zero)
    then show ?thesis using nex
      by (simp add: db_insert_def Let_def violates_unique_server_js copies_def)
  qed
next
  case False
  then have "\<not> matches [(''message_id'', k), (''platform'', p)] (pending_action_server_js t m)"
    by (auto simp: matches_pair col_pending_action_server_js)
  then show ?thesis using assms
    by (simp add: db_insert_def Let_def copies_def)
qed

text \<open>
  Claim C1, as amended. In both servers, delivering to \<open>saveToSupabase\<close> a message whose
  record is already in the table inserts nothing and returns \<open>{skipped, reason: 'duplicate'}\<close>,
  provided the duplicate lookup returns without a storage error (and, in the multi-user
  server, the link is not empty). The multi-user server recognises a recorded message by
  its link and platform tag, \<open>server.js\<close> by its message id and platform. In the multi-user
  server a save leaves at most one row per link and platform tag when there was at most
  one before only under the same provisos and when its insert finds the rows as its lookup
  found them (\<open>rows d' = rows d\<close> below): the lookup and the insert are two awaited calls
  and no index covers the link. In \<open>server.js\<close> a save, and every insert it makes on
  whatever state of the table, leaves at most one row per message id and platform, by the
  unique index of the migration.
\<close>

theorem redelivery_skipped:
  "(pending_action m \<in> set (rows d) \<and> m_url m \<noteq> [] \<and> \<not> next_fault d
      \<longrightarrow> fst (saveToSupabase m d) = Inr (Skipped ''duplicate'')
          \<and> rows (snd (saveToSupabase m d)) = rows d)
   \<and> (pending_action_server_js t m \<in> set (rows d) \<and> \<not> next_fault d
      \<longrightarrow> fst (saveToSupabase_server_js t' m d) = Inr (Skipped ''duplicate'')
          \<and> rows (snd (saveToSupabase_server_js t' m d)) = rows d)
   \<and> (fst (isDuplicate (m_url m) (m_platform m) d) = False \<and> m_url m \<noteq> [] \<and> \<not> next_fault d
        \<and> rows d' = rows d
        \<and> copies [(''message_link'', l), (''platform_tag'', p)] (rows d) \<le> 1
      \<longrightarrow> copies [(''message_link'', l), (''platform_tag'', p)]
            (rows (snd (db_insert (pending_action m) d'))) \<le> 1)
   \<and> (copies [(''message_id'', k), (''platform'', p)] (rows d) \<le> 1
      \<longrightarrow> copies [(''message_id'', k), (''platform'', p)] (rows (snd (saveToSupabase_server_js t' m d))) \<le> 1
          \<and> copies [(''message_id'', k), (''platform'', p)]
               (rows (snd (db_insert (pending_action_server_js t' m) d))) \<le> 1)"
  using redelivery[of m d] redelivery_server_js[of t m d t'] insert_after_lookup[of m d d' l p]
    at_most_one_server_js[of k p d t' m] insert_server_js_at_most_one[of k p d t' m]
  by blast

text \<open>
  Claim C1 at the message of the specification, delivered a second time to each server,
  and at a first save whose insert follows its lookup on the empty table.
\<close>

theorem redelivery_skipped_witness:
  "fst (saveToSupabase
      \<lparr>m_sender = Some ''Bob'', m_summary = ''Q3 report'',
       m_url = ''https://mail.google.com/mail/u/0/#inbox/18c'', m_platform = ''gmail'',
       m_messageId = ''<abc@mail>'', m_user_id = ''u1''\<rparr>
      \<lparr>rows = [[(''task_text'', ''Bob: Q3 report''), (''platform_tag'', ''gmail''), (''sender_name'', ''Bob''),
          (''message_link'', ''https://mail.google.com/mail/u/0/#inbox/18c''), (''user_id'', ''u1'')]],
       calls = [], faults = []\<rparr>) = Inr (Skipped ''duplicate'')
   \<and> rows (snd (saveToSupabase
      \<lparr>m_sender = Some ''Bob'', m_summary = ''Q3 report'',
       m_url = ''https://mail.google.com/mail/u/0/#inbox/18c'', m_platform = ''gmail'',
       m_messageId = ''<abc@mail>'', m_user_id = ''u1''\<rparr>
      \<lparr>rows = [[(''task_text'', ''Bob: Q3 report''), (''platform_tag'', ''gmail''), (''sender_name'', ''Bob''),
          (''message_link'', ''https://mail.google.com/mail/u/0/#inbox/18c''), (''user_id'', ''u1'')]],
       calls = [], faults = []\<rparr>))
      = [[(''task_text'', ''Bob: Q3 report''), (''platform_tag'', ''gmail''), (''sender_name'', ''Bob''),
          (''message_link'', ''https://mail.google.com/mail/u/0/#inbox/18c''), (''user_id'', ''u1'')]]
   \<and> fst (saveToSupabase_server_js ''2024-01-02T00:00:00.000Z''
      \<lparr>m_sender = Some ''Bob'', m_summary = ''Q3 report'',
       m_url = ''https://mail.google.com/mail/u/0/#inbox/18c'', m_platform = ''gmail'',
       m_messageId = ''<abc@mail>'', m_user_id = ''u1''\<rparr>
      \<lparr>rows = [[(''sender'', ''Bob''), (''summary'', ''Q3 report''),
          (''url'', ''https://mail.google.com/mail/u/0/#inbox/18c''), (''platform'', ''gmail''),
          (''message_id'', ''<abc@mail>''), (''created_at'', ''2024-01-01T00:00:00.000Z'')]],
       calls = [], faults = []\<rparr>) = Inr (Skipped ''duplicate'')
   \<and> rows (snd (saveToSupabase_server_js ''2024-01-02T00:00:00.000Z''
      \<lparr>m_sender = Some ''Bob'', m_summary = ''Q3 report'',
       m_url = ''https://mail.google.com/mail/u/0/#inbox/18c'', m_platform = ''gmail'',
       m_messageId = ''<abc@mail>'', m_user_id = ''u1''\<rparr>
      \<lparr>rows = [[(''sender'', ''Bob''), (''summary'', ''Q3 report''),
          (''url'', ''https://mail.google.com/mail/u/0/#inbox/18c''), (''platform'', ''gmail''),
          (''message_id'', ''<abc@mail>''), (''created_at'', ''2024-01-01T00:00:00.000Z'')]],
       calls = [], faults = []\<rparr>))
      = [[(''sender'', ''Bob''), (''summary'', ''Q3 report''),
          (''url'', ''https://mail.google.com/mail/u/0/#inbox/18c''), (''platform'', ''gmail''),
          (''message_id'', ''<abc@mail>''), (''created_at'', ''2024-01-01T00:00:00.000Z'')]]
   \<and> copies [(''message_link'', ''https://mail.google.com/mail/u/0/#inbox/18c''), (''platform_tag'', ''gmail'')]
        (rows (snd (db_insert
          [(''task_text'', ''Bob: Q3 report''), (''platform_tag'', ''gmail''), (''sender_name'', ''Bob''),
          (''message_link'', ''https://mail.google.com/mail/u/0/#inbox/18c''), (''user_id'', ''u1'')]
          \<lparr>rows = [], calls = [Select [(''message_link'', ''https://mail.google.com/mail/u/0/#inbox/18c''), (''platform_tag'', ''gmail'')]], faults = []\<rparr>))) \<le> 1
   \<and> copies [(''message_id'', ''<abc@mail>''), (''platform'', ''gmail'')]
        (rows (snd (saveToSupabase_server_js ''2024-01-02T00:00:00.000Z''
      \<lparr>m_sender = Some ''Bob'', m_summary = ''Q3 report'',
       m_url = ''https://mail.google.com/mail/u/0/#inbox/18c'', m_platform = ''gmail'',
       m_messageId = ''<abc@mail>'', m_user_id = ''u1''\<rparr>
      \<lparr>rows = [[(''sender'', ''Bob''), (''summary'', ''Q3 report''),
          (''url'', ''https://mail.google.com/mail/u/0/#inbox/18c''), (''platform'', ''gmail''),
          (''message_id'', ''<abc@mail>''), (''created_at'', ''2024-01-01T00:00:00.000Z'')]],
       calls = [], faults = []\<rparr>))) \<le> 1
   \<and> copies [(''message_id'', ''<abc@mail>''), (''platform'', ''gmail'')]
        (rows (snd (db_insert
          [(''sender'', ''Bob''), (''summary'', ''Q3 report''),
          (''url'', ''https://mail.google.com/mail/u/0/#inbox/18c''), (''platform'', ''gmail''),
          (''message_id'', ''<abc@mail>''), (''created_at'', ''2024-01-02T00:00:00.000Z'')]
          \<lparr>rows = [[(''sender'', ''Bob''), (''summary'', ''Q3 report''),
          (''url'', ''https://mail.google.com/mail/u/0/#inbox/18c''), (''platform'', ''gmail''),
          (''message_id'', ''<abc@mail>''), (''created_at'', ''2024-01-01T00:00:00.000Z'')]],
       calls = [], faults = []\<rparr>))) \<le> 1"
proof -
  let ?m = "\<lparr>m_sender = Some ''Bob'', m_summary = ''Q3 report'',
       m_url = ''https://mail.google.com/mail/u/0/#inbox/18c'', m_platform = ''gmail'',
       m_messageId = ''<abc@mail>'', m_user_id = ''u1''\<rparr>"
  let ?d = "\<lparr>rows = [[(''task_text'', ''Bob: Q3 report''), (''platform_tag'', ''gmail''), (''sender_name'', ''Bob''),
          (''message_link'', ''https://mail.google.com/mail/u/0/#inbox/18c''), (''user_id'', ''u1'')]],
       calls = [], faults = []\<rparr>"
  let ?d' = "\<lparr>rows = [[(''sender'', ''Bob''), (''summary'', ''Q3 report''),
          (''url'', ''https://mail.google.com/mail/u/0/#inbox/18c''), (''platform'', ''gmail''),
          (''message_id'', ''<abc@mail>''), (''created_at'', ''2024-01-01T00:00:00.000Z'')]],
       calls = [], faults = []\<rparr>"
  let ?empty = "\<lparr>rows = [], calls = [], faults = []\<rparr>"
  let ?looked = "\<lparr>rows = [], calls = [Select [(''message_link'', ''https://mail.google.com/mail/u/0/#inbox/18c''), (''platform_tag'', ''gmail'')]], faults = []\<rparr>"
  have a1: "pending_action ?m \<in> set (rows ?d) \<and> m_url ?m \<noteq> [] \<and> \<not> next_fault ?d"
    by (simp add: pending_action_def opt_col_def js_str_def next_fault_def)
  have a2: "pending_action_server_js ''2024-01-01T00:00:00.000Z'' ?m \<in> set (rows ?d') \<and> \<not> next_fault ?d'"
    by (simp add: pending_action_server_js_def opt_col_def next_fault_def)
  have a4: "copies [(''message_id'', ''<abc@mail>''), (''platform'', ''gmail'')] (rows ?d') \<le> 1"
    by (simp add: copies_def)
  have a5: "fst (isDuplicate (m_url ?m) (m_platform ?m) ?empty) = False \<and> m_url ?m \<noteq> [] \<and> \<not> next_fault ?empty
        \<and> rows ?looked = rows ?empty
        \<and> copies [(''message_link'', ''https://mail.google.com/mail/u/0/#inbox/18c''), (''platform_tag'', ''gmail'')]
             (rows ?empty) \<le> 1"
    by (simp add: isDuplicate_eq next_fault_def copies_def)
  have pa: "pending_action ?m = [(''task_text'', ''Bob: Q3 report''), (''platform_tag'', ''gmail''), (''sender_name'', ''Bob''),
          (''message_link'', ''https://mail.google.com/mail/u/0/#inbox/18c''), (''user_id'', ''u1'')]"
    by (simp add: pending_action_def opt_col_def js_str_def)
  have c1: "fst (saveToSupabase ?m ?d) = Inr (Skipped ''duplicate'') \<and> rows (snd (saveToSupabase ?m ?d)) = rows ?d"
    using redelivery_skipped[where m = ?m and d = ?d] a1 by blast
  have c2: "fst (saveToSupabase_server_js ''2024-01-02T00:00:00.000Z'' ?m ?d') = Inr (Skipped ''duplicate'')
            \<and> rows (snd (saveToSupabase_server_js ''2024-01-02T00:00:00.000Z'' ?m ?d')) = rows ?d'"
    using redelivery_skipped[where m = ?m and d = ?d' and t = "''2024-01-01T00:00:00.000Z''"
        and t' = "''2024-01-02T00:00:00.000Z''"] a2 by blast
  have c3: "copies [(''message_link'', ''https://mail.google.com/mail/u/0/#inbox/18c''), (''platform_tag'', ''gmail'')]
              (rows (snd (db_insert (pending_action ?m) ?looked))) \<le> 1"
    using redelivery_skipped[where m = ?m and d = ?empty and d' = ?looked
        and l = "''https://mail.google.com/mail/u/0/#inbox/18c''" and p = "''gmail''"] a5 by blast
  have c5: "copies [(''message_id'', ''<abc@mail>''), (''platform'', ''gmail'')]
              (rows (snd (saveToSupabase_server_js ''2024-01-02T00:00:00.000Z'' ?m ?d'))) \<le> 1
            \<and> copies [(''message_id'', ''<abc@mail>''), (''platform'', ''gmail'')]
              (rows (snd (db_insert (pending_action_server_js ''2024-01-02T00:00:00.000Z'' ?m) ?d'))) \<le> 1"
    using redelivery_skipped[where m = ?m and d = ?d' and t' = "''2024-01-02T00:00:00.000Z''"
        and k = "''<abc@mail>''" and p = "''gmail''"] a4 by blast
  have pb: "pending_action_server_js ''2024-01-02T00:00:00.000Z'' ?m
              = [(''sender'', ''Bob''), (''summary'', ''Q3 report''),
          (''url'', ''https://mail.google.com/mail/u/0/#inbox/18c''), (''platform'', ''gmail''),
          (''message_id'', ''<abc@mail>''), (''created_at'', ''2024-01-02T00:00:00.000Z'')]"
    by (simp add: pending_action_server_js_def opt_col_def)
  from c1 c2 c3 c5 show ?thesis unfolding pa pb by simp
qed

text \<open>
  Claim C1 as stated fails in the multi-user server. Two messages with the same dedup key
  \<open><abc@mail>\<close> and the same platform, fetched from two mailboxes and so with two links,
  are both recorded: the key is never compared. A message identical to a recorded one
  is inserted again when the duplicate lookup returns an error, since \<open>isDuplicate\<close> then
  answers \<open>false\<close>; in \<open>server.js\<close> the same delivery ends in the error of the unique index,
  thrown to the caller, not in a skipped result. And two deliveries of one message whose
  calls reach the store in the order lookup, lookup, insert, insert are both told
  \<open>false\<close> and both inserted.
\<close>

theorem same_key_two_records:
  "rows (snd (saveToSupabase
      \<lparr>m_sender = Some ''Bob'', m_summary = ''Q3 report'',
       m_url = ''https://mail.google.com/mail/u/0/#inbox/27f'', m_platform = ''gmail'',
       m_messageId = ''<abc@mail>'', m_user_id = ''u2''\<rparr>
      (snd (saveToSupabase
      \<lparr>m_sender = Some ''Bob'', m_summary = ''Q3 report'',
       m_url = ''https://mail.google.com/mail/u/0/#inbox/18c'', m_platform = ''gmail'',
       m_messageId = ''<abc@mail>'', m_user_id = ''u1''\<rparr>
      \<lparr>rows = [], calls = [], faults = []\<rparr>))))
     = [[(''task_text'', ''Bob: Q3 report''), (''platform_tag'', ''gmail''), (''sender_name'', ''Bob''),
          (''message_link'', ''https://mail.google.com/mail/u/0/#inbox/18c''), (''user_id'', ''u1'')],
        [(''task_text'', ''Bob: Q3 report''), (''platform_tag'', ''gmail''), (''sender_name'', ''Bob''),
          (''message_link'', ''https://mail.google.com/mail/u/0/#inbox/27f''), (''user_id'', ''u2'')]]
   \<and> saveToSupabase
      \<lparr>m_sender = Some ''Bob'', m_summary = ''Q3 report'',
       m_url = ''https://mail.google.com/mail/u/0/#inbox/18c'', m_platform = ''gmail'',
       m_messageId = ''<abc@mail>'', m_user_id = ''u1''\<rparr>
      \<lparr>rows = [[(''task_text'', ''Bob: Q3 report''), (''platform_tag'', ''gmail''), (''sender_name'', ''Bob''),
          (''message_link'', ''https://mail.google.com/mail/u/0/#inbox/18c''), (''user_id'', ''u1'')]],
       calls = [], faults = [True]\<rparr>
     = (Inr (Saved [[(''task_text'', ''Bob: Q3 report''), (''platform_tag'', ''gmail''), (''sender_name'', ''Bob''),
          (''message_link'', ''https://mail.google.com/mail/u/0/#inbox/18c''), (''user_id'', ''u1'')]]),
        \<lparr>rows = [[(''task_text'', ''Bob: Q3 report''), (''platform_tag'', ''gmail''), (''sender_name'', ''Bob''),
          (''message_link'', ''https://mail.google.com/mail/u/0/#inbox/18c''), (''user_id'', ''u1'')],
                 [(''task_text'', ''Bob: Q3 report''), (''platform_tag'', ''gmail''), (''sender_name'', ''Bob''),
          (''message_link'', ''https://mail.google.com/mail/u/0/#inbox/18c''), (''user_id'', ''u1'')]],
         calls = [Select [(''message_link'', ''https://mail.google.com/mail/u/0/#inbox/18c''), (''platform_tag'', ''gmail'')],
                  Insert [(''task_text'', ''Bob: Q3 report''), (''platform_tag'', ''gmail''), (''sender_name'', ''Bob''),
          (''message_link'', ''https://mail.google.com/mail/u/0/#inbox/18c''), (''user_id'', ''u1'')]],
         faults = []\<rparr>)
   \<and> fst (saveToSupabase_server_js ''2024-01-02T00:00:00.000Z''
      \<lparr>m_sender = Some ''Bob'', m_summary = ''Q3 report'',
       m_url = ''https://mail.google.com/mail/u/0/#inbox/18c'', m_platform = ''gmail'',
       m_messageId = ''<abc@mail>'', m_user_id = ''u1''\<rparr>
      \<lparr>rows = [[(''sender'', ''Bob''), (''summary'', ''Q3 report''),
          (''url'', ''https://mail.google.com/mail/u/0/#inbox/18c''), (''platform'', ''gmail''),
          (''message_id'', ''<abc@mail>''), (''created_at'', ''2024-01-01T00:00:00.000Z'')]],
       calls = [], faults = [True]\<rparr>)
     = Inl UniqueViolation
   \<and> fst (isDuplicate ''https://mail.google.com/mail/u/0/#inbox/18c'' ''gmail''
          \<lparr>rows = [], calls = [], faults = []\<rparr>) = False
   \<and> fst (isDuplicate ''https://mail.google.com/mail/u/0/#inbox/18c'' ''gmail''
          (snd (isDuplicate ''https://mail.google.com/mail/u/0/#inbox/18c'' ''gmail''
          \<lparr>rows = [], calls = [], faults = []\<rparr>))) = False
   \<and> rows (snd (db_insert
          [(''task_text'', ''Bob: Q3 report''), (''platform_tag'', ''gmail''), (''sender_name'', ''Bob''),
          (''message_link'', ''https://mail.google.com/mail/u/0/#inbox/18c''), (''user_id'', ''u1'')]
          (snd (db_insert
          [(''task_text'', ''Bob: Q3 report''), (''platform_tag'', ''gmail''), (''sender_name'', ''Bob''),
          (''message_link'', ''https://mail.google.com/mail/u/0/#inbox/18c''), (''user_id'', ''u1'')]
          (snd (isDuplicate ''https://mail.google.com/mail/u/0/#inbox/18c'' ''gmail''
          (snd (isDuplicate ''https://mail.google.com/mail/u/0/#inbox/18c'' ''gmail''
          \<lparr>rows = [], calls = [], faults = []\<rparr>))))))))
     = [[(''task_text'', ''Bob: Q3 report''), (''platform_tag'', ''gmail''), (''sender_name'', ''Bob''),
          (''message_link'', ''https://mail.google.com/mail/u/0/#inbox/18c''), (''user_id'', ''u1'')],
        [(''task_text'', ''Bob: Q3 report''), (''platform_tag'', ''gmail''), (''sender_name'', ''Bob''),
          (''message_link'', ''https://mail.google.com/mail/u/0/#inbox/18c''), (''user_id'', ''u1'')]]"
  by (simp add: saveToSupabase_def isDuplicate_def saveToSupabase_server_js_def isDuplicate_server_js_def
        db_select_def db_insert_def Let_def next_fault_def matches_def col_def violates_unique_def
        pending_action_def pending_action_server_js_def opt_col_def js_str_def)

text \<open>
  Claim C2, as amended. The gate of \<open>server.js\<close> issues one query, filtered on
  \<open>message_id\<close> = the dedup key and \<open>platform\<close>, and answers whether a row matches when
  the query succeeds and \<open>false\<close> when it fails. The gate of the multi-user server, given
  a non-empty link, does the same on \<open>message_link\<close> = the link and \<open>platform_tag\<close>, and
  answers \<open>false\<close> with no query for an empty link. In
  both servers the calls \<open>saveToSupabase\<close> makes are the gate's query alone or the gate's
  query followed by the insert: no insert goes out before the gate has been asked.
\<close>

theorem duplicate_gate:
  "isDuplicate_server_js k p d
     = (\<not> next_fault d \<and> list_ex (matches [(''message_id'', k), (''platform'', p)]) (rows d),
        d\<lparr>calls := calls d @ [Select [(''message_id'', k), (''platform'', p)]], faults := tl (faults d)\<rparr>)
   \<and> (l \<noteq> [] \<longrightarrow>
        isDuplicate l p d
          = (\<not> next_fault d \<and> list_ex (matches [(''message_link'', l), (''platform_tag'', p)]) (rows d),
             d\<lparr>calls := calls d @ [Select [(''message_link'', l), (''platform_tag'', p)]],
               faults := tl (faults d)\<rparr>))
   \<and> (calls (snd (saveToSupabase_server_js t m d))
         = calls d @ [Select [(''message_id'', m_messageId m), (''platform'', m_platform m)]]
       \<or> calls (snd (saveToSupabase_server_js t m d))
         = calls d @ [Select [(''message_id'', m_messageId m), (''platform'', m_platform m)],
                      Insert (pending_action_server_js t m)])
   \<and> (m_url m \<noteq> [] \<longrightarrow>
        calls (snd (saveToSupabase m d))
          = calls d @ [Select [(''message_link'', m_url m), (''platform_tag'', m_platform m)]]
        \<or> calls (snd (saveToSupabase m d))
          = calls d @ [Select [(''message_link'', m_url m), (''platform_tag'', m_platform m)],
                       Insert (pending_action m)])
   \<and> isDuplicate [] p d = (False, d)"
  using isDuplicate_server_js_eq[of k p d] isDuplicate_eq[of l p d]
    saveToSupabase_server_js_calls[of t m d] saveToSupabase_calls[of m d] isDuplicate_empty[of p d]
  by blast

text \<open>
  Claim C2 at a table that holds the message, and at the calls of a first save.
\<close>

theorem duplicate_gate_witness:
  "isDuplicate ''https://mail.google.com/mail/u/0/#inbox/18c'' ''gmail''
      \<lparr>rows = [[(''task_text'', ''Bob: Q3 report''), (''platform_tag'', ''gmail''), (''sender_name'', ''Bob''),
          (''message_link'', ''https://mail.google.com/mail/u/0/#inbox/18c''), (''user_id'', ''u1'')]],
       calls = [], faults = []\<rparr>
     = (True,
        \<lparr>rows = [[(''task_text'', ''Bob: Q3 report''), (''platform_tag'', ''gmail''), (''sender_name'', ''Bob''),
          (''message_link'', ''https://mail.google.com/mail/u/0/#inbox/18c''), (''user_id'', ''u1'')]],
         calls = [Select [(''message_link'', ''https://mail.google.com/mail/u/0/#inbox/18c''), (''platform_tag'', ''gmail'')]],
         faults = []\<rparr>)
   \<and> (calls (snd (saveToSupabase
      \<lparr>m_sender = Some ''Bob'', m_summary = ''Q3 report'',
       m_url = ''https://mail.google.com/mail/u/0/#inbox/18c'', m_platform = ''gmail'',
       m_messageId = ''<abc@mail>'', m_user_id = ''u1''\<rparr>
      \<lparr>rows = [], calls = [], faults = []\<rparr>))
        = [] @ [Select [(''message_link'', ''https://mail.google.com/mail/u/0/#inbox/18c''), (''platform_tag'', ''gmail'')]]
      \<or> calls (snd (saveToSupabase
      \<lparr>m_sender = Some ''Bob'', m_summary = ''Q3 report'',
       m_url = ''https://mail.google.com/mail/u/0/#inbox/18c'', m_platform = ''gmail'',
       m_messageId = ''<abc@mail>'', m_user_id = ''u1''\<rparr>
      \<lparr>rows = [], calls = [], faults = []\<rparr>))
        = [] @ [Select [(''message_link'', ''https://mail.google.com/mail/u/0/#inbox/18c''), (''platform_tag'', ''gmail'')],
                Insert (pending_action
      \<lparr>m_sender = Some ''Bob'', m_summary = ''Q3 report'',
       m_url = ''https://mail.google.com/mail/u/0/#inbox/18c'', m_platform = ''gmail'',
       m_messageId = ''<abc@mail>'', m_user_id = ''u1''\<rparr>)])"
proof -
  let ?m = "\<lparr>m_sender = Some ''Bob'', m_summary = ''Q3 report'',
       m_url = ''https://mail.google.com/mail/u/0/#inbox/18c'', m_platform = ''gmail'',
       m_messageId = ''<abc@mail>'', m_user_id = ''u1''\<rparr>"
  let ?d = "\<lparr>rows = [[(''task_text'', ''Bob: Q3 report''), (''platform_tag'', ''gmail''), (''sender_name'', ''Bob''),
          (''message_link'', ''https://mail.google.com/mail/u/0/#inbox/18c''), (''user_id'', ''u1'')]],
       calls = [], faults = []\<rparr>"
  have a: "''https://mail.google.com/mail/u/0/#inbox/18c'' \<noteq> []" by simp
  have b: "m_url ?m \<noteq> []" by simp
  have g: "isDuplicate ''https://mail.google.com/mail/u/0/#inbox/18c'' ''gmail'' ?d
          = (\<not> next_fault ?d \<and> list_ex (matches [(''message_link'', ''https://mail.google.com/mail/u/0/#inbox/18c''),
                                                       (''platform_tag'', ''gmail'')]) (rows ?d),
             ?d\<lparr>calls := calls ?d @ [Select [(''message_link'', ''https://mail.google.com/mail/u/0/#inbox/18c''), (''platform_tag'', ''gmail'')]],
                 faults := tl (faults ?d)\<rparr>)"
    using duplicate_gate[where l = "''https://mail.google.com/mail/u/0/#inbox/18c''" and p = "''gmail''" and d = ?d] a
    by blast
  have c: "calls (snd (saveToSupabase ?m \<lparr>rows = [], calls = [], faults = []\<rparr>))
          = calls \<lparr>rows = [], calls = [], faults = []\<rparr> @ [Select [(''message_link'', m_url ?m), (''platform_tag'', m_platform ?m)]]
        \<or> calls (snd (saveToSupabase ?m \<lparr>rows = [], calls = [], faults = []\<rparr>))
          = calls \<lparr>rows = [], calls = [], faults = []\<rparr> @ [Select [(''message_link'', m_url ?m), (''platform_tag'', m_platform ?m)],
                       Insert (pending_action ?m)]"
    using duplicate_gate[where m = ?m and d = "\<lparr>rows = [], calls = [], faults = []\<rparr>"] b by blast
  from g have g': "isDuplicate ''https://mail.google.com/mail/u/0/#inbox/18c'' ''gmail'' ?d
     = (True, \<lparr>rows = [[(''task_text'', ''Bob: Q3 report''), (''platform_tag'', ''gmail''), (''sender_name'', ''Bob''),
          (''message_link'', ''https://mail.google.com/mail/u/0/#inbox/18c''), (''user_id'', ''u1'')]],
         calls = [Select [(''message_link'', ''https://mail.google.com/mail/u/0/#inbox/18c''), (''platform_tag'', ''gmail'')]],
         faults = []\<rparr>)"
    by (simp add: next_fault_def matches_def col_def)
  from c have c': "calls (snd (saveToSupabase ?m \<lparr>rows = [], calls = [], faults = []\<rparr>))
        = [] @ [Select [(''message_link'', ''https://mail.google.com/mail/u/0/#inbox/18c''), (''platform_tag'', ''gmail'')]]
      \<or> calls (snd (saveToSupabase ?m \<lparr>rows = [], calls = [], faults = []\<rparr>))
        = [] @ [Select [(''message_link'', ''https://mail.google.com/mail/u/0/#inbox/18c''), (''platform_tag'', ''gmail'')],
                Insert (pending_action ?m)]"
    by simp
  from g' c' show ?thesis by (rule conjI)
qed

text \<open>
  Claim C2 as stated fails in the multi-user server: the query of a save filters on
  \<open>message_link\<close> with the link, and the gate asked with the dedup key of a recorded
  message finds nothing.
\<close>

theorem gate_keyed_on_link:
  "calls (snd (saveToSupabase
      \<lparr>m_sender = Some ''Bob'', m_summary = ''Q3 report'',
       m_url = ''https://mail.google.com/mail/u/0/#inbox/18c'', m_platform = ''gmail'',
       m_messageId = ''<abc@mail>'', m_user_id = ''u1''\<rparr>
      \<lparr>rows = [], calls = [], faults = []\<rparr>))
     = [Select [(''message_link'', ''https://mail.google.com/mail/u/0/#inbox/18c''), (''platform_tag'', ''gmail'')],
        Insert [(''task_text'', ''Bob: Q3 report''), (''platform_tag'', ''gmail''), (''sender_name'', ''Bob''),
          (''message_link'', ''https://mail.google.com/mail/u/0/#inbox/18c''), (''user_id'', ''u1'')]]
   \<and> fst (isDuplicate ''<abc@mail>'' ''gmail''
      \<lparr>rows = [[(''task_text'', ''Bob: Q3 report''), (''platform_tag'', ''gmail''), (''sender_name'', ''Bob''),
          (''message_link'', ''https://mail.google.com/mail/u/0/#inbox/18c''), (''user_id'', ''u1'')]],
       calls = [], faults = []\<rparr>) = False"
  by (simp add: saveToSupabase_def isDuplicate_def db_select_def db_insert_def Let_def next_fault_def
        matches_def col_def violates_unique_def pending_action_def opt_col_def js_str_def)

section \<open>Properties of signature verification\<close>

lemma utf8_nonempty: "utf8 c \<noteq> []"
  by (simp add: utf8_def Let_def)

lemma utf8_prefix_inj: "utf8 a @ xs = utf8 b @ ys \<Longrightarrow> a = b \<and> xs = ys"
proof -
  assume h: "utf8 a @ xs = utf8 b @ ys"
  let ?m = "of_char a :: nat" and ?n = "of_char b :: nat"
  have "?m = ?n \<and> xs = ys"
  proof (cases "?m < 128")
    case ma: True
    show ?thesis
    proof (cases "?n < 128")
      case True
      with ma h show ?thesis by (simp add: utf8_def Let_def)
    next
      case False
      with ma h show ?thesis by (simp add: utf8_def Let_def)
    qed
  next
    case mb: False
    show ?thesis
    proof (cases "?n < 128")
      case True
      with mb h show ?thesis by (simp add: utf8_def Let_def)
    next
      case False
      with mb h have d: "?m div 64 = ?n div 64" and m: "?m mod 64 = ?n mod 64" and r: "xs = ys"
        by (simp_all add: utf8_def Let_def)
      have "?m = ?n" using d m by (metis div_mult_mod_eq)
      with r show ?thesis by simp
    qed
  qed
  then show ?thesis by simp
qed

lemma Buffer_from_inj: "Buffer_from s = Buffer_from t \<Longrightarrow> s = t"
proof (induction s arbitrary: t)
  case Nil
  then show ?case by (cases t) (simp_all add: Buffer_from_def utf8_nonempty)
next
  case (Cons a s)
  show ?case
  proof (cases t)
    case Nil
    with Cons.prems show ?thesis by (simp add: Buffer_from_def utf8_nonempty)
  next
    case (Cons b t')
    with Cons.prems have "utf8 a @ Buffer_from s = utf8 b @ Buffer_from t'"
      by (simp add: Buffer_from_def)
    then have "a = b \<and> Buffer_from s = Buffer_from t'" by (rule utf8_prefix_inj)
    with Cons.IH Cons show ?thesis by simp
  qed
qed

lemma Buffer_from_ascii:
  "list_all (\<lambda>c. (of_char c :: nat) < 128) s \<Longrightarrow> length (Buffer_from s) = length s"
  by (induction s) (simp_all add: Buffer_from_def utf8_def)

lemma hex_ascii: "c \<in> set ''0123456789abcdef'' \<Longrightarrow> (of_char c :: nat) < 128"
  by auto

lemma hex_digest_bytes: "is_hex_digest h \<Longrightarrow> length (Buffer_from (''v0='' @ h)) = 67"
proof -
  assume a: "is_hex_digest h"
  then have "list_all (\<lambda>c. (of_char c :: nat) < 128) h"
    unfolding is_hex_digest_def list_all_iff using hex_ascii by blast
  then have "list_all (\<lambda>c. (of_char c :: nat) < 128) (''v0='' @ h)" by simp
  then have "length (Buffer_from (''v0='' @ h)) = length (''v0='' @ h)" by (rule Buffer_from_ascii)
  with a show ?thesis by (simp add: is_hex_digest_def)
qed

lemma verify_stale:
  "truthy (SLACK_SIGNING_SECRET e) \<Longrightarrow> stale e req \<Longrightarrow> verifySlackSignature lb e req = Inr False"
  by (simp add: verifySlackSignature_def)

lemma verify_compare:
  assumes "truthy (SLACK_SIGNING_SECRET e)" "\<not> stale e req" "x_slack_signature req = Some sg"
    and "length (Buffer_from sg) = length (Buffer_from (mySignature lb (js_str (SLACK_SIGNING_SECRET e)) req))"
  shows "verifySlackSignature lb e req = Inr (sg = mySignature lb (js_str (SLACK_SIGNING_SECRET e)) req)"
  using assms Buffer_from_inj by (auto simp: verifySlackSignature_def timingSafeEqual_def)

lemma verify_throws:
  assumes "truthy (SLACK_SIGNING_SECRET e)" "\<not> stale e req"
  shows "x_slack_signature req = None \<Longrightarrow> verifySlackSignature lb e req = Inl TypeError"
    and "x_slack_signature req = Some sg \<Longrightarrow>
         length (Buffer_from sg) \<noteq> length (Buffer_from (mySignature lb (js_str (SLACK_SIGNING_SECRET e)) req)) \<Longrightarrow>
         verifySlackSignature lb e req = Inl RangeError"
  using assms by (auto simp: verifySlackSignature_def timingSafeEqual_def)

lemma webhook_rejects:
  "b_type (body req) \<noteq> Some ''url_verification'' \<Longrightarrow> verifySlackSignature lb e req = Inr False \<Longrightarrow>
   slack_webhook lb e io req d = (Inr (Response 401 (Text ''Invalid signature'')), d)"
  by (simp add: slack_webhook_def)

lemma webhook_throws:
  "b_type (body req) \<noteq> Some ''url_verification'' \<Longrightarrow> verifySlackSignature lb e req = Inl ex \<Longrightarrow>
   slack_webhook lb e io req d = (Inl ex, d)"
  by (simp add: slack_webhook_def)



lemma hex_digest_replicate: "c \<in> set ''0123456789abcdef'' \<Longrightarrow> is_hex_digest (replicate 64 c)"
  by (simp add: is_hex_digest_def list_all_iff)

lemma fresh_1700000000:
  "\<not> stale \<lparr>SLACK_SIGNING_SECRET = s, now_ms = 1700000000000\<rparr>
        \<lparr>x_slack_request_timestamp = Some ''1700000000'', x_slack_signature = g, body = b\<rparr>"
  by (simp add: stale_def fiveMinutesAgo_def parseInt_def js_str_def is_space_def radix_digit_def digit_value_def)

lemma verify_constant_digest:
  "verifySlackSignature
      \<lparr>hmac_sha256_hex = (\<lambda>key msg. replicate 64 CHR ''0''), JSON_stringify = (\<lambda>b. ''{}'')\<rparr>
      \<lparr>SLACK_SIGNING_SECRET = Some ''8f742231b10e8888abcd99yyyzzz85a5'', now_ms = 1700000000000\<rparr>
      \<lparr>x_slack_request_timestamp = Some ''1700000000'',
       x_slack_signature = Some (''v0='' @ replicate 64 CHR ''0''),
       body = b\<rparr>
     = Inr True"
proof -
  let ?lb = "\<lparr>hmac_sha256_hex = (\<lambda>key msg. replicate 64 CHR ''0''), JSON_stringify = (\<lambda>b. ''{}'')\<rparr>"
  let ?e = "\<lparr>SLACK_SIGNING_SECRET = Some ''8f742231b10e8888abcd99yyyzzz85a5'', now_ms = 1700000000000\<rparr>"
  let ?req = "\<lparr>x_slack_request_timestamp = Some ''1700000000'',
       x_slack_signature = Some (''v0='' @ replicate 64 CHR ''0''), body = b\<rparr>"
  have h1: "truthy (SLACK_SIGNING_SECRET ?e)" by (simp add: truthy_def)
  have h2: "\<not> stale ?e ?req" by (rule fresh_1700000000)
  have h3: "x_slack_signature ?req = Some (''v0='' @ replicate 64 CHR ''0'')" by simp
  have my: "mySignature ?lb (js_str (SLACK_SIGNING_SECRET ?e)) ?req = ''v0='' @ replicate 64 CHR ''0''"
    by (simp add: mySignature_def)
  have h4: "length (Buffer_from (''v0='' @ replicate 64 CHR ''0''))
              = length (Buffer_from (mySignature ?lb (js_str (SLACK_SIGNING_SECRET ?e)) ?req))"
    by (simp only: my)
  from verify_compare[OF h1 h2 h3 h4] my show ?thesis by simp
qed

text \<open>
  Claim C4. With a signing secret configured, a request whose timestamp header reads as
  an integer more than 300 seconds before the current time fails verification whatever its
  signature, and the handler answers 401 unless the body is a \<open>url_verification\<close>
  handshake, which is answered before the verifier runs.
\<close>

theorem stale_timestamp_rejected:
  assumes "truthy (SLACK_SIGNING_SECRET e)"
    and "parseInt (x_slack_request_timestamp req) = Some t"
    and "t < now_ms e div 1000 - 300"
  shows "verifySlackSignature lb e req = Inr False \<and>
         (b_type (body req) \<noteq> Some ''url_verification'' \<longrightarrow>
            slack_webhook lb e io req d = (Inr (Response 401 (Text ''Invalid signature'')), d))"
proof -
  have "stale e req" using assms(2,3) by (simp add: stale_def fiveMinutesAgo_def)
  with assms(1) have "verifySlackSignature lb e req = Inr False" by (rule verify_stale)
  then show ?thesis by (simp add: webhook_rejects)
qed

text \<open>
  Claim C4 at a request 400 seconds old whose signature is the one the verifier would
  compute (the digest function here is a stand-in that returns 64 zeros).
\<close>

theorem stale_timestamp_rejected_witness:
  "verifySlackSignature
      \<lparr>hmac_sha256_hex = (\<lambda>key msg. replicate 64 CHR ''0''), JSON_stringify = (\<lambda>b. ''{}'')\<rparr>
      \<lparr>SLACK_SIGNING_SECRET = Some ''8f742231b10e8888abcd99yyyzzz85a5'', now_ms = 1700000400000\<rparr>
      \<lparr>x_slack_request_timestamp = Some ''1700000000'',
       x_slack_signature = Some (''v0='' @ replicate 64 CHR ''0''),
       body = \<lparr>b_type = Some ''event_callback'', b_challenge = None, b_team_id = Some ''T1'', b_event = None\<rparr>\<rparr>
     = Inr False
   \<and> slack_webhook
      \<lparr>hmac_sha256_hex = (\<lambda>key msg. replicate 64 CHR ''0''), JSON_stringify = (\<lambda>b. ''{}'')\<rparr>
      \<lparr>SLACK_SIGNING_SECRET = Some ''8f742231b10e8888abcd99yyyzzz85a5'', now_ms = 1700000400000\<rparr>
      \<lparr>si_token_record = None, si_users_info = None\<rparr>
      \<lparr>x_slack_request_timestamp = Some ''1700000000'',
       x_slack_signature = Some (''v0='' @ replicate 64 CHR ''0''),
       body = \<lparr>b_type = Some ''event_callback'', b_challenge = None, b_team_id = Some ''T1'', b_event = None\<rparr>\<rparr>
      \<lparr>rows = [], calls = [], faults = []\<rparr>
     = (Inr (Response 401 (Text ''Invalid signature'')), \<lparr>rows = [], calls = [], faults = []\<rparr>)"
proof -
  let ?e = "\<lparr>SLACK_SIGNING_SECRET = Some ''8f742231b10e8888abcd99yyyzzz85a5'', now_ms = 1700000400000\<rparr>"
  let ?req = "\<lparr>x_slack_request_timestamp = Some ''1700000000'',
       x_slack_signature = Some (''v0='' @ replicate 64 CHR ''0''),
       body = \<lparr>b_type = Some ''event_callback'', b_challenge = None, b_team_id = Some ''T1'', b_event = None\<rparr>\<rparr>"
  have h1: "truthy (SLACK_SIGNING_SECRET ?e)" by (simp add: truthy_def)
  have h2: "parseInt (x_slack_request_timestamp ?req) = Some 1700000000"
    by (simp add: parseInt_def js_str_def is_space_def radix_digit_def digit_value_def)
  have h3: "(1700000000::int) < now_ms ?e div 1000 - 300" by simp
  have h4: "b_type (body ?req) \<noteq> Some ''url_verification''" by simp
  from stale_timestamp_rejected[OF h1 h2 h3] h4 show ?thesis by blast
qed




text \<open>
  Claim C10, as amended. With a signing secret configured and a timestamp that is not
  older than five minutes (or not a number), the verifier throws when the signature header
  is absent (\<open>Buffer.from(undefined)\<close>) or its length in bytes is not the 67 of
  \<open>'v0='\<close> plus 64 hexadecimal digits (\<open>timingSafeEqual\<close>); unless the body is a
  \<open>url_verification\<close> handshake the exception leaves the handler and no 401 is sent.
\<close>

theorem signature_exception:
  assumes "truthy (SLACK_SIGNING_SECRET e)" and "\<not> stale e req"
    and "is_hex_digest (hmac_sha256_hex lb (js_str (SLACK_SIGNING_SECRET e)) (sigBasestring lb req))"
    and "x_slack_signature req = None \<or>
         (\<exists>sg. x_slack_signature req = Some sg \<and> length (Buffer_from sg) \<noteq> 67)"
  shows "verifySlackSignature lb e req = Inl (if x_slack_signature req = None then TypeError else RangeError) \<and>
         (b_type (body req) \<noteq> Some ''url_verification'' \<longrightarrow>
            slack_webhook lb e io req d
              = (Inl (if x_slack_signature req = None then TypeError else RangeError), d))"
proof -
  have len: "length (Buffer_from (mySignature lb (js_str (SLACK_SIGNING_SECRET e)) req)) = 67"
    unfolding mySignature_def using assms(3) by (rule hex_digest_bytes)
  have "verifySlackSignature lb e req = Inl (if x_slack_signature req = None then TypeError else RangeError)"
  proof (cases "x_slack_signature req")
    case None
    then show ?thesis using verify_throws(1)[OF assms(1,2)] by simp
  next
    case (Some sg)
    with assms(4) have "length (Buffer_from sg) \<noteq> 67" by simp
    with Some len show ?thesis using verify_throws(2)[OF assms(1,2)] by simp
  qed
  then show ?thesis by (simp add: webhook_throws)
qed

text \<open>
  Claim C10 at a fresh request with a signature header of six bytes.
\<close>

theorem signature_exception_witness:
  "verifySlackSignature
      \<lparr>hmac_sha256_hex = (\<lambda>key msg. replicate 64 CHR ''0''), JSON_stringify = (\<lambda>b. ''{}'')\<rparr>
      \<lparr>SLACK_SIGNING_SECRET = Some ''8f742231b10e8888abcd99yyyzzz85a5'', now_ms = 1700000000000\<rparr>
      \<lparr>x_slack_request_timestamp = Some ''1700000000'',
       x_slack_signature = Some ''v0=abc'',
       body = \<lparr>b_type = Some ''event_callback'', b_challenge = None, b_team_id = Some ''T1'', b_event = None\<rparr>\<rparr>
     = Inl RangeError
   \<and> slack_webhook
      \<lparr>hmac_sha256_hex = (\<lambda>key msg. replicate 64 CHR ''0''), JSON_stringify = (\<lambda>b. ''{}'')\<rparr>
      \<lparr>SLACK_SIGNING_SECRET = Some ''8f742231b10e8888abcd99yyyzzz85a5'', now_ms = 1700000000000\<rparr>
      \<lparr>si_token_record = None, si_users_info = None\<rparr>
      \<lparr>x_slack_request_timestamp = Some ''1700000000'',
       x_slack_signature = Some ''v0=abc'',
       body = \<lparr>b_type = Some ''event_callback'', b_challenge = None, b_team_id = Some ''T1'', b_event = None\<rparr>\<rparr>
      \<lparr>rows = [], calls = [], faults = []\<rparr>
     = (Inl RangeError, \<lparr>rows = [], calls = [], faults = []\<rparr>)"
proof -
  let ?lb = "\<lparr>hmac_sha256_hex = (\<lambda>key msg. replicate 64 CHR ''0''), JSON_stringify = (\<lambda>b. ''{}'')\<rparr>"
  let ?e = "\<lparr>SLACK_SIGNING_SECRET = Some ''8f742231b10e8888abcd99yyyzzz85a5'', now_ms = 1700000000000\<rparr>"
  let ?req = "\<lparr>x_slack_request_timestamp = Some ''1700000000'',
       x_slack_signature = Some ''v0=abc'',
       body = \<lparr>b_type = Some ''event_callback'', b_challenge = None, b_team_id = Some ''T1'', b_event = None\<rparr>\<rparr>"
  have h1: "truthy (SLACK_SIGNING_SECRET ?e)" by (simp add: truthy_def)
  have h2: "\<not> stale ?e ?req" by (rule fresh_1700000000)
  have h3: "is_hex_digest (hmac_sha256_hex ?lb (js_str (SLACK_SIGNING_SECRET ?e)) (sigBasestring ?lb ?req))"
    by (simp add: hex_digest_replicate)
  have h4: "x_slack_signature ?req = None \<or>
         (\<exists>sg. x_slack_signature ?req = Some sg \<and> length (Buffer_from sg) \<noteq> 67)"
    by (simp add: Buffer_from_def utf8_def)
  from signature_exception[OF h1 h2 h3 h4] show ?thesis by simp
qed

text \<open>
  Claim C10 as stated fails when the timestamp is stale: the freshness test comes first,
  so a request 400 seconds old with no signature header makes the verifier return
  \<open>false\<close>, and the handler answers 401.
\<close>

theorem stale_without_signature:
  "verifySlackSignature
      \<lparr>hmac_sha256_hex = (\<lambda>key msg. replicate 64 CHR ''0''), JSON_stringify = (\<lambda>b. ''{}'')\<rparr>
      \<lparr>SLACK_SIGNING_SECRET = Some ''8f742231b10e8888abcd99yyyzzz85a5'', now_ms = 1700000400000\<rparr>
      \<lparr>x_slack_request_timestamp = Some ''1700000000'',
       x_slack_signature = None,
       body = \<lparr>b_type = Some ''event_callback'', b_challenge = None, b_team_id = Some ''T1'', b_event = None\<rparr>\<rparr>
     = Inr False
   \<and> slack_webhook
      \<lparr>hmac_sha256_hex = (\<lambda>key msg. replicate 64 CHR ''0''), JSON_stringify = (\<lambda>b. ''{}'')\<rparr>
      \<lparr>SLACK_SIGNING_SECRET = Some ''8f742231b10e8888abcd99yyyzzz85a5'', now_ms = 1700000400000\<rparr>
      \<lparr>si_token_record = None, si_users_info = None\<rparr>
      \<lparr>x_slack_request_timestamp = Some ''1700000000'',
       x_slack_signature = None,
       body = \<lparr>b_type = Some ''event_callback'', b_challenge = None, b_team_id = Some ''T1'', b_event = None\<rparr>\<rparr>
      \<lparr>rows = [], calls = [], faults = []\<rparr>
     = (Inr (Response 401 (Text ''Invalid signature'')), \<lparr>rows = [], calls = [], faults = []\<rparr>)"
  by (simp add: slack_webhook_def verifySlackSignature_def truthy_def stale_def fiveMinutesAgo_def
        parseInt_def js_str_def is_space_def radix_digit_def digit_value_def)

section \<open>Properties of the Slack handler\<close>

text \<open>
  Claim C9. A body of type \<open>url_verification\<close> is answered with status 200 and the
  challenge of the body, whatever the signing secret, the timestamp and the signature
  header are; the store is not touched.
\<close>

theorem url_verification_echo:
  "b_type (body req) = Some ''url_verification'' \<Longrightarrow>
   slack_webhook lb e io req d = (Inr (Response 200 (Challenge (b_challenge (body req)))), d)"
  by (simp add: slack_webhook_def)

text \<open>
  Claim C9 at a handshake with a signing secret configured and no signature header.
\<close>

theorem url_verification_echo_witness:
  "slack_webhook
      \<lparr>hmac_sha256_hex = (\<lambda>key msg. replicate 64 CHR ''0''), JSON_stringify = (\<lambda>b. ''{}'')\<rparr>
      \<lparr>SLACK_SIGNING_SECRET = Some ''8f742231b10e8888abcd99yyyzzz85a5'', now_ms = 1700000000000\<rparr>
      \<lparr>si_token_record = None, si_users_info = None\<rparr>
      \<lparr>x_slack_request_timestamp = None,
       x_slack_signature = None,
       body = \<lparr>b_type = Some ''url_verification'', b_challenge = Some ''3eZbrw1aBm2rZgRNFdxV2595E9CY'',
               b_team_id = None, b_event = None\<rparr>\<rparr>
      \<lparr>rows = [], calls = [], faults = []\<rparr>
     = (Inr (Response 200 (Challenge (Some ''3eZbrw1aBm2rZgRNFdxV2595E9CY''))),
        \<lparr>rows = [], calls = [], faults = []\<rparr>)"
proof -
  let ?req = "\<lparr>x_slack_request_timestamp = None,
       x_slack_signature = None,
       body = \<lparr>b_type = Some ''url_verification'', b_challenge = Some ''3eZbrw1aBm2rZgRNFdxV2595E9CY'',
               b_team_id = None, b_event = None\<rparr>\<rparr>"
  have h: "b_type (body ?req) = Some ''url_verification''" by simp
  from url_verification_echo[OF h] show ?thesis by simp
qed

text \<open>
  Claim C7. A direct-message event that carries a \<open>bot_id\<close> or a \<open>subtype\<close> leaves the
  store as it was, with no call made to it, and once the request has passed signature
  verification the handler answers 200.
\<close>

theorem bot_or_subtype_discarded:
  assumes "b_event (body req) = Some event"
    and "ev_type event = Some ''message''" and "ev_channel_type event = Some ''im''"
    and "truthy (ev_bot_id event) \<or> truthy (ev_subtype event)"
  shows "snd (slack_webhook lb e io req d) = d \<and>
         (verifySlackSignature lb e req = Inr True \<longrightarrow>
            (\<exists>r. fst (slack_webhook lb e io req d) = Inr r \<and> status r = 200))"
  using assms by (auto simp: slack_webhook_def split: sum.splits)

text \<open>
  Claim C7 at a signed direct message from a bot.
\<close>

theorem bot_or_subtype_discarded_witness:
  "snd (slack_webhook
      \<lparr>hmac_sha256_hex = (\<lambda>key msg. replicate 64 CHR ''0''), JSON_stringify = (\<lambda>b. ''{}'')\<rparr>
      \<lparr>SLACK_SIGNING_SECRET = Some ''8f742231b10e8888abcd99yyyzzz85a5'', now_ms = 1700000000000\<rparr>
      \<lparr>si_token_record = Some (''u1'', ''xoxb-1''), si_users_info = None\<rparr>
      \<lparr>x_slack_request_timestamp = Some ''1700000000'',
       x_slack_signature = Some (''v0='' @ replicate 64 CHR ''0''),
       body = \<lparr>b_type = Some ''event_callback'', b_challenge = None, b_team_id = Some ''T1'',
               b_event = Some \<lparr>ev_type = Some ''message'', ev_channel_type = Some ''im'',
                                ev_bot_id = Some ''B42'', ev_subtype = None, ev_channel = Some ''D7'',
                                ev_ts = Some ''1700000000.000100'', ev_user = Some ''U9'',
                                ev_text = Some ''ping''\<rparr>\<rparr>\<rparr>
      \<lparr>rows = [], calls = [], faults = []\<rparr>) = \<lparr>rows = [], calls = [], faults = []\<rparr>
   \<and> (\<exists>r. fst (slack_webhook
      \<lparr>hmac_sha256_hex = (\<lambda>key msg. replicate 64 CHR ''0''), JSON_stringify = (\<lambda>b. ''{}'')\<rparr>
      \<lparr>SLACK_SIGNING_SECRET = Some ''8f742231b10e8888abcd99yyyzzz85a5'', now_ms = 1700000000000\<rparr>
      \<lparr>si_token_record = Some (''u1'', ''xoxb-1''), si_users_info = None\<rparr>
      \<lparr>x_slack_request_timestamp = Some ''1700000000'',
       x_slack_signature = Some (''v0='' @ replicate 64 CHR ''0''),
       body = \<lparr>b_type = Some ''event_callback'', b_challenge = None, b_team_id = Some ''T1'',
               b_event = Some \<lparr>ev_type = Some ''message'', ev_channel_type = Some ''im'',
                                ev_bot_id = Some ''B42'', ev_subtype = None, ev_channel = Some ''D7'',
                                ev_ts = Some ''1700000000.000100'', ev_user = Some ''U9'',
                                ev_text = Some ''ping''\<rparr>\<rparr>\<rparr>
      \<lparr>rows = [], calls = [], faults = []\<rparr>) = Inr r \<and> status r = 200)"
proof -
  let ?lb = "\<lparr>hmac_sha256_hex = (\<lambda>key msg. replicate 64 CHR ''0''), JSON_stringify = (\<lambda>b. ''{}'')\<rparr>"
  let ?e = "\<lparr>SLACK_SIGNING_SECRET = Some ''8f742231b10e8888abcd99yyyzzz85a5'', now_ms = 1700000000000\<rparr>"
  let ?ev = "\<lparr>ev_type = Some ''message'', ev_channel_type = Some ''im'',
                                ev_bot_id = Some ''B42'', ev_subtype = None, ev_channel = Some ''D7'',
                                ev_ts = Some ''1700000000.000100'', ev_user = Some ''U9'',
                                ev_text = Some ''ping''\<rparr>"
  let ?b = "\<lparr>b_type = Some ''event_callback'', b_challenge = None, b_team_id = Some ''T1'',
               b_event = Some ?ev\<rparr>"
  let ?req = "\<lparr>x_slack_request_timestamp = Some ''1700000000'',
       x_slack_signature = Some (''v0='' @ replicate 64 CHR ''0''), body = ?b\<rparr>"
  have h1: "b_event (body ?req) = Some ?ev" by simp
  have h2: "ev_type ?ev = Some ''message''" and h3: "ev_channel_type ?ev = Some ''im''" by simp_all
  have h4: "truthy (ev_bot_id ?ev) \<or> truthy (ev_subtype ?ev)" by (simp add: truthy_def)
  have v: "verifySlackSignature ?lb ?e ?req = Inr True" by (rule verify_constant_digest)
  from bot_or_subtype_discarded[OF h1 h2 h3 h4, of ?lb ?e] v
  show ?thesis by blast
qed

section \<open>Acknowledgement of webhook calls\<close>

lemma gmail_webhook_acknowledges:
  "\<exists>r d'. gmail_webhook io data d = (Inr r, d') \<and> status r = 200"
  by (auto simp: gmail_webhook_def gmail_webhook_try_def split: sum.splits option.splits prod.splits)

lemma slack_webhook_accepted:
  "b_type (body req) = Some ''url_verification'' \<or> verifySlackSignature lb e req = Inr True \<Longrightarrow>
   \<exists>r d'. slack_webhook lb e io req d = (Inr r, d') \<and> status r = 200"
  by (auto simp: slack_webhook_def split: option.splits)

lemma slack_webhook_responses:
  "fst (slack_webhook lb e io req d) = Inr r \<Longrightarrow>
   status r = 200 \<or>
   (status r = 401 \<and> b_type (body req) \<noteq> Some ''url_verification'' \<and> verifySlackSignature lb e req = Inr False)"
  by (auto simp: slack_webhook_def split: sum.splits option.splits if_splits)

lemma slack_webhook_exception:
  "fst (slack_webhook lb e io req d) = Inl ex \<Longrightarrow>
   truthy (SLACK_SIGNING_SECRET e) \<and> \<not> stale e req \<and>
   (x_slack_signature req = None \<or>
    (\<exists>sg. x_slack_signature req = Some sg \<and>
       length (Buffer_from sg) \<noteq> length (Buffer_from (mySignature lb (js_str (SLACK_SIGNING_SECRET e)) req))))"
  by (auto simp: slack_webhook_def verifySlackSignature_def timingSafeEqual_def
           split: sum.splits option.splits if_splits)

lemma post_gmail_webhook_parsed:
  "JSON_parse raw = Some data \<Longrightarrow>
   \<exists>r d'. post_gmail_webhook JSON_parse io raw d = (Inr r, d') \<and> status r = 200"
  using gmail_webhook_acknowledges[of io data d] by (simp add: post_gmail_webhook_def)

lemma post_slack_webhook_accepted:
  "JSON_parse (dl_raw_body dl) = Some b \<Longrightarrow>
   b_type b = Some ''url_verification'' \<or> verifySlackSignature lb e (parsed_request dl b) = Inr True \<Longrightarrow>
   \<exists>r d'. post_slack_webhook JSON_parse lb e io dl d = (Inr r, d') \<and> status r = 200"
  using slack_webhook_accepted[of "parsed_request dl b" lb e io d]
  by (simp add: post_slack_webhook_def parsed_request_def)

lemma post_slack_webhook_responses:
  "fst (post_slack_webhook JSON_parse lb e io dl d) = Inr r \<Longrightarrow>
   status r = 200
   \<or> (status r = 400 \<and> JSON_parse (dl_raw_body dl) = None)
   \<or> (status r = 401 \<and>
       (\<exists>b. JSON_parse (dl_raw_body dl) = Some b \<and> b_type b \<noteq> Some ''url_verification''
            \<and> verifySlackSignature lb e (parsed_request dl b) = Inr False))"
proof (cases "JSON_parse (dl_raw_body dl)")
  case None
  assume "fst (post_slack_webhook JSON_parse lb e io dl d) = Inr r"
  with None show ?thesis by (auto simp: post_slack_webhook_def)
next
  case (Some b)
  assume "fst (post_slack_webhook JSON_parse lb e io dl d) = Inr r"
  with Some have "fst (slack_webhook lb e io (parsed_request dl b) d) = Inr r"
    by (simp add: post_slack_webhook_def)
  from slack_webhook_responses[OF this] Some show ?thesis
    by (auto simp: parsed_request_def)
qed

lemma post_slack_webhook_exception:
  "fst (post_slack_webhook JSON_parse lb e io dl d) = Inl ex \<Longrightarrow>
   \<exists>b. JSON_parse (dl_raw_body dl) = Some b \<and> b_type b \<noteq> Some ''url_verification''
        \<and> verifySlackSignature lb e (parsed_request dl b) = Inl ex"
  by (auto simp: post_slack_webhook_def slack_webhook_def parsed_request_def
           split: option.splits sum.splits if_splits)

text \<open>
  Claim C8, as amended. A webhook request whose body the parser cannot parse is answered
  400 by \<open>express.json()\<close> before the handler runs. Every request it parses is answered 200
  by the Gmail webhook, on every path (no data, an undecodable notification, an unknown
  address, a provider error, a filtered message, a failed insert), and by the Slack webhook
  whenever it is a handshake or the verifier accepts it, whatever the event, the tenant
  lookup and the store do. The Slack webhook answers 401 only when the verifier has
  returned \<open>false\<close>. It sends no response only when the verifier itself throws, an outcome
  on which nothing more is stated here.
\<close>

theorem webhook_outcomes:
  "(parse_data raw = Some data
      \<longrightarrow> (\<exists>r d'. post_gmail_webhook parse_data gio raw d = (Inr r, d') \<and> status r = 200))
   \<and> (JSON_parse (dl_raw_body dl) = Some b
        \<and> (b_type b = Some ''url_verification''
            \<or> verifySlackSignature lb e (parsed_request dl b) = Inr True)
      \<longrightarrow> (\<exists>r d'. post_slack_webhook JSON_parse lb e sio dl d = (Inr r, d') \<and> status r = 200))
   \<and> (fst (post_slack_webhook JSON_parse lb e sio dl d) = Inr r \<and> status r = 401
      \<longrightarrow> (\<exists>b. JSON_parse (dl_raw_body dl) = Some b \<and> b_type b \<noteq> Some ''url_verification''
               \<and> verifySlackSignature lb e (parsed_request dl b) = Inr False))
   \<and> (parse_data raw = None
      \<longrightarrow> post_gmail_webhook parse_data gio raw d = (Inr (Response 400 ErrorPage), d))
   \<and> (JSON_parse (dl_raw_body dl) = None
      \<longrightarrow> post_slack_webhook JSON_parse lb e sio dl d = (Inr (Response 400 ErrorPage), d))
   \<and> (fst (post_slack_webhook JSON_parse lb e sio dl d) = Inl ex
      \<longrightarrow> (\<exists>b. JSON_parse (dl_raw_body dl) = Some b \<and> b_type b \<noteq> Some ''url_verification''
               \<and> verifySlackSignature lb e (parsed_request dl b) = Inl ex))"
proof (intro conjI impI)
  assume "parse_data raw = Some data"
  then show "\<exists>r d'. post_gmail_webhook parse_data gio raw d = (Inr r, d') \<and> status r = 200"
    by (rule post_gmail_webhook_parsed)
next
  assume "JSON_parse (dl_raw_body dl) = Some b
        \<and> (b_type b = Some ''url_verification''
            \<or> verifySlackSignature lb e (parsed_request dl b) = Inr True)"
  then show "\<exists>r d'. post_slack_webhook JSON_parse lb e sio dl d = (Inr r, d') \<and> status r = 200"
    using post_slack_webhook_accepted[of JSON_parse dl b lb e sio d] by blast
next
  assume a: "fst (post_slack_webhook JSON_parse lb e sio dl d) = Inr r \<and> status r = 401"
  then show "\<exists>b. JSON_parse (dl_raw_body dl) = Some b \<and> b_type b \<noteq> Some ''url_verification''
               \<and> verifySlackSignature lb e (parsed_request dl b) = Inr False"
    using post_slack_webhook_responses[of JSON_parse lb e sio dl d r] by auto
next
  assume "parse_data raw = None"
  then show "post_gmail_webhook parse_data gio raw d = (Inr (Response 400 ErrorPage), d)"
    by (simp add: post_gmail_webhook_def)
next
  assume "JSON_parse (dl_raw_body dl) = None"
  then show "post_slack_webhook JSON_parse lb e sio dl d = (Inr (Response 400 ErrorPage), d)"
    by (simp add: post_slack_webhook_def)
next
  assume "fst (post_slack_webhook JSON_parse lb e sio dl d) = Inl ex"
  then show "\<exists>b. JSON_parse (dl_raw_body dl) = Some b \<and> b_type b \<noteq> Some ''url_verification''
               \<and> verifySlackSignature lb e (parsed_request dl b) = Inl ex"
    by (rule post_slack_webhook_exception)
qed

text \<open>
  Claim C8 at a Gmail notification whose message fetch throws, a signed Slack direct
  message whose insert fails, a stale Slack request (answered 401), a Slack request with
  no signature header, and two bodies that are not JSON.
\<close>

theorem webhook_outcomes_witness:
  "(\<exists>r d'. post_gmail_webhook
        (\<lambda>raw. Some (Some ''eyJlbWFpbEFkZHJlc3MiOiJhZGFAeC5jb20ifQ==''))
        \<lparr>gi_decode = (\<lambda>s. Inr (Some ''ada@x.com'')),
         gi_token_record = Some (''u1'', ''refresh''),
         gi_list = Inr [''18c''],
         gi_get = (\<lambda>i. Inl ApiError)\<rparr>
        ''{}''
        \<lparr>rows = [], calls = [], faults = []\<rparr> = (Inr r, d') \<and> status r = 200)
   \<and> (\<exists>r d'. post_slack_webhook
        (\<lambda>raw. Some \<lparr>b_type = Some ''event_callback'', b_challenge = None, b_team_id = Some ''T1'',
                 b_event = Some \<lparr>ev_type = Some ''message'', ev_channel_type = Some ''im'',
                                  ev_bot_id = None, ev_subtype = None, ev_channel = Some ''D7'',
                                  ev_ts = Some ''1700000000.000100'', ev_user = Some ''U9'',
                                  ev_text = Some ''ping''\<rparr>\<rparr>)
        \<lparr>hmac_sha256_hex = (\<lambda>key msg. replicate 64 CHR ''0''), JSON_stringify = (\<lambda>b. ''{}'')\<rparr>
        \<lparr>SLACK_SIGNING_SECRET = Some ''8f742231b10e8888abcd99yyyzzz85a5'', now_ms = 1700000000000\<rparr>
        \<lparr>si_token_record = Some (''u1'', ''xoxb-1''), si_users_info = None\<rparr>
        \<lparr>dl_timestamp = Some ''1700000000'',
         dl_signature = Some (''v0='' @ replicate 64 CHR ''0''),
         dl_raw_body = ''{}''\<rparr>
        \<lparr>rows = [], calls = [], faults = [False, True]\<rparr> = (Inr r, d') \<and> status r = 200)
   \<and> verifySlackSignature
        \<lparr>hmac_sha256_hex = (\<lambda>key msg. replicate 64 CHR ''0''), JSON_stringify = (\<lambda>b. ''{}'')\<rparr>
        \<lparr>SLACK_SIGNING_SECRET = Some ''8f742231b10e8888abcd99yyyzzz85a5'', now_ms = 1700000400000\<rparr>
        (parsed_request
        \<lparr>dl_timestamp = Some ''1700000000'',
         dl_signature = Some ''v0=0'',
         dl_raw_body = ''{}''\<rparr>
        \<lparr>b_type = Some ''event_callback'', b_challenge = None, b_team_id = Some ''T1'', b_event = None\<rparr>)
       = Inr False
   \<and> verifySlackSignature
        \<lparr>hmac_sha256_hex = (\<lambda>key msg. replicate 64 CHR ''0''), JSON_stringify = (\<lambda>b. ''{}'')\<rparr>
        \<lparr>SLACK_SIGNING_SECRET = Some ''8f742231b10e8888abcd99yyyzzz85a5'', now_ms = 1700000000000\<rparr>
        (parsed_request
        \<lparr>dl_timestamp = Some ''1700000000'',
         dl_signature = None,
         dl_raw_body = ''{}''\<rparr>
        \<lparr>b_type = Some ''event_callback'', b_challenge = None, b_team_id = Some ''T1'', b_event = None\<rparr>)
       = Inl TypeError
   \<and> post_gmail_webhook (\<lambda>raw. None)
        \<lparr>gi_decode = (\<lambda>s. Inr (Some ''ada@x.com'')),
         gi_token_record = Some (''u1'', ''refresh''),
         gi_list = Inr [''18c''],
         gi_get = (\<lambda>i. Inl ApiError)\<rparr>
        ''{''
        \<lparr>rows = [], calls = [], faults = []\<rparr> = (Inr (Response 400 ErrorPage), \<lparr>rows = [], calls = [], faults = []\<rparr>)
   \<and> post_slack_webhook (\<lambda>raw. None)
        \<lparr>hmac_sha256_hex = (\<lambda>key msg. replicate 64 CHR ''0''), JSON_stringify = (\<lambda>b. ''{}'')\<rparr>
        \<lparr>SLACK_SIGNING_SECRET = Some ''8f742231b10e8888abcd99yyyzzz85a5'', now_ms = 1700000000000\<rparr>
        \<lparr>si_token_record = None, si_users_info = None\<rparr>
        \<lparr>dl_timestamp = Some ''1700000000'',
         dl_signature = Some (''v0='' @ replicate 64 CHR ''0''),
         dl_raw_body = ''{''\<rparr>
        \<lparr>rows = [], calls = [], faults = []\<rparr> = (Inr (Response 400 ErrorPage), \<lparr>rows = [], calls = [], faults = []\<rparr>)"
proof -
  let ?lb = "\<lparr>hmac_sha256_hex = (\<lambda>key msg. replicate 64 CHR ''0''), JSON_stringify = (\<lambda>b. ''{}'')\<rparr>"
  let ?e = "\<lparr>SLACK_SIGNING_SECRET = Some ''8f742231b10e8888abcd99yyyzzz85a5'', now_ms = 1700000000000\<rparr>"
  let ?old = "\<lparr>SLACK_SIGNING_SECRET = Some ''8f742231b10e8888abcd99yyyzzz85a5'', now_ms = 1700000400000\<rparr>"
  let ?gio = "\<lparr>gi_decode = (\<lambda>s. Inr (Some ''ada@x.com'')),
         gi_token_record = Some (''u1'', ''refresh''),
         gi_list = Inr [''18c''],
         gi_get = (\<lambda>i. Inl ApiError)\<rparr>"
  let ?dm = "\<lparr>b_type = Some ''event_callback'', b_challenge = None, b_team_id = Some ''T1'',
                 b_event = Some \<lparr>ev_type = Some ''message'', ev_channel_type = Some ''im'',
                                  ev_bot_id = None, ev_subtype = None, ev_channel = Some ''D7'',
                                  ev_ts = Some ''1700000000.000100'', ev_user = Some ''U9'',
                                  ev_text = Some ''ping''\<rparr>\<rparr>"
  let ?eb = "\<lparr>b_type = Some ''event_callback'', b_challenge = None, b_team_id = Some ''T1'', b_event = None\<rparr>"
  let ?ok = "\<lparr>dl_timestamp = Some ''1700000000'',
         dl_signature = Some (''v0='' @ replicate 64 CHR ''0''),
         dl_raw_body = ''{}''\<rparr>"
  let ?late = "\<lparr>dl_timestamp = Some ''1700000000'',
         dl_signature = Some ''v0=0'',
         dl_raw_body = ''{}''\<rparr>"
  let ?bad = "\<lparr>dl_timestamp = Some ''1700000000'',
         dl_signature = Some (''v0='' @ replicate 64 CHR ''0''),
         dl_raw_body = ''{''\<rparr>"
  let ?sio = "\<lparr>si_token_record = None, si_users_info = None\<rparr>"
  let ?empty = "\<lparr>rows = [], calls = [], faults = []\<rparr>"
  let ?pg = "\<lambda>raw::string. Some (Some ''eyJlbWFpbEFkZHJlc3MiOiJhZGFAeC5jb20ifQ=='')"
  let ?pdm = "\<lambda>raw::string. Some ?dm"
  let ?peb = "\<lambda>raw::string. Some ?eb"
  let ?fail_g = "\<lambda>raw::string. (None :: string option option)"
  let ?fail_s = "\<lambda>raw::string. (None :: slack_body option)"
  have g: "?pg ''{}'' = Some (Some ''eyJlbWFpbEFkZHJlc3MiOiJhZGFAeC5jb20ifQ=='')" by simp
  have c1: "\<exists>r d'. post_gmail_webhook ?pg ?gio ''{}'' ?empty = (Inr r, d') \<and> status r = 200"
    using webhook_outcomes[where parse_data = ?pg and raw = "''{}''" and gio = ?gio and d = ?empty] g
    by blast
  have v: "?pdm (dl_raw_body ?ok) = Some ?dm
        \<and> (b_type ?dm = Some ''url_verification''
            \<or> verifySlackSignature ?lb ?e (parsed_request ?ok ?dm) = Inr True)"
    using verify_constant_digest[of ?dm] by (simp add: parsed_request_def)
  have c2: "\<exists>r d'. post_slack_webhook ?pdm ?lb ?e \<lparr>si_token_record = Some (''u1'', ''xoxb-1''), si_users_info = None\<rparr> ?ok
                \<lparr>rows = [], calls = [], faults = [False, True]\<rparr> = (Inr r, d') \<and> status r = 200"
    using webhook_outcomes[where JSON_parse = ?pdm and dl = ?ok and b = ?dm and lb = ?lb and e = ?e] v
    by blast
  have r401: "fst (post_slack_webhook ?peb ?lb ?old ?sio ?late ?empty)
                = Inr (Response 401 (Text ''Invalid signature''))
              \<and> status (Response 401 (Text ''Invalid signature'')) = 401"
    by (simp add: post_slack_webhook_def parsed_request_def slack_webhook_def verifySlackSignature_def
          truthy_def stale_def fiveMinutesAgo_def parseInt_def js_str_def is_space_def radix_digit_def
          digit_value_def)
  have "\<exists>b. ?peb (dl_raw_body ?late) = Some b \<and> b_type b \<noteq> Some ''url_verification''
            \<and> verifySlackSignature ?lb ?old (parsed_request ?late b) = Inr False"
    using webhook_outcomes[where JSON_parse = ?peb and lb = ?lb and e = ?old and sio = ?sio
        and dl = ?late and d = ?empty and r = "Response 401 (Text ''Invalid signature'')"] r401
    by blast
  then have c3: "verifySlackSignature ?lb ?old (parsed_request ?late ?eb) = Inr False" by auto
  have c4: "post_gmail_webhook ?fail_g ?gio ''{'' ?empty = (Inr (Response 400 ErrorPage), ?empty)"
    using webhook_outcomes[where parse_data = ?fail_g and raw = "''{''" and gio = ?gio and d = ?empty]
    by blast
  have n: "?fail_s (dl_raw_body ?bad) = None" by simp
  have c5: "post_slack_webhook ?fail_s ?lb ?e ?sio ?bad ?empty = (Inr (Response 400 ErrorPage), ?empty)"
    using webhook_outcomes[where JSON_parse = ?fail_s and dl = ?bad and lb = ?lb and e = ?e
        and sio = ?sio and d = ?empty] n
    by blast
  let ?unsigned = "\<lparr>dl_timestamp = Some ''1700000000'',
         dl_signature = None,
         dl_raw_body = ''{}''\<rparr>"
  have thrown: "fst (post_slack_webhook ?peb ?lb ?e ?sio ?unsigned ?empty) = Inl TypeError"
    by (simp add: post_slack_webhook_def parsed_request_def slack_webhook_def verifySlackSignature_def
          truthy_def fresh_1700000000)
  have "\<exists>b. ?peb (dl_raw_body ?unsigned) = Some b \<and> b_type b \<noteq> Some ''url_verification''
            \<and> verifySlackSignature ?lb ?e (parsed_request ?unsigned b) = Inl TypeError"
    using webhook_outcomes[where JSON_parse = ?peb and lb = ?lb and e = ?e and sio = ?sio
        and dl = ?unsigned and d = ?empty and ex = TypeError] thrown
    by blast
  then have c6: "verifySlackSignature ?lb ?e (parsed_request ?unsigned ?eb) = Inl TypeError" by auto
  from c1 c2 c3 c6 c4 c5 show ?thesis by blast
qed

text \<open>
  Claim C8 as stated fails for a body that is not JSON: the body parser answers 400 on
  both routes and neither handler runs.
\<close>

theorem unparseable_body_answered_400:
  "post_gmail_webhook (\<lambda>raw. None)
        \<lparr>gi_decode = (\<lambda>s. Inr (Some ''ada@x.com'')),
         gi_token_record = Some (''u1'', ''refresh''),
         gi_list = Inr [''18c''],
         gi_get = (\<lambda>i. Inl ApiError)\<rparr>
        ''{''
        \<lparr>rows = [], calls = [], faults = []\<rparr> = (Inr (Response 400 ErrorPage), \<lparr>rows = [], calls = [], faults = []\<rparr>)
   \<and> post_slack_webhook (\<lambda>raw. None)
        \<lparr>hmac_sha256_hex = (\<lambda>key msg. replicate 64 CHR ''0''), JSON_stringify = (\<lambda>b. ''{}'')\<rparr>
        \<lparr>SLACK_SIGNING_SECRET = Some ''8f742231b10e8888abcd99yyyzzz85a5'', now_ms = 1700000000000\<rparr>
        \<lparr>si_token_record = None, si_users_info = None\<rparr>
        \<lparr>dl_timestamp = Some ''1700000000'',
         dl_signature = Some (''v0='' @ replicate 64 CHR ''0''),
         dl_raw_body = ''{''\<rparr>
        \<lparr>rows = [], calls = [], faults = []\<rparr> = (Inr (Response 400 ErrorPage), \<lparr>rows = [], calls = [], faults = []\<rparr>)"
  by (simp add: post_gmail_webhook_def post_slack_webhook_def)

end
